theory Spec2Isabelle
  imports Main
begin

section \<open>Strings\<close>

text \<open>
  The component works on JavaScript strings. A \<^typ>\<open>char\<close> stands for one UTF-16 code
  unit below 256, which covers every string literal of the source. \<open>trim\<close> is
  \<^verbatim>\<open>String.prototype.trim\<close>: it strips white space and line terminators from both ends;
  of the code units it strips, these seven are below 256.
\<close>

definition isWhiteSpace :: "char \<Rightarrow> bool" where
  "isWhiteSpace c =
     (c \<in> set [CHR 0x09, CHR 0x0A, CHR 0x0B, CHR 0x0C, CHR 0x0D, CHR 0x20, CHR 0xA0])"

definition trim :: "string \<Rightarrow> string" where
  "trim s = rev (dropWhile isWhiteSpace (rev (dropWhile isWhiteSpace s)))"

text \<open>
  \<^verbatim>\<open>s.split(sep)\<close> for a one-character separator: the pieces between the occurrences of
  \<open>sep\<close>, empty pieces included, so the empty string gives one empty piece.
\<close>

fun split_on :: "char \<Rightarrow> string \<Rightarrow> string list" where
  "split_on sep [] = [[]]"
| "split_on sep (c # cs) =
     (if c = sep then [] # split_on sep cs
      else (case split_on sep cs of [] \<Rightarrow> [[c]] | l # ls \<Rightarrow> (c # l) # ls))"

text \<open>\<^verbatim>\<open>xs.join(sep)\<close> on an array of strings.\<close>

fun join :: "string \<Rightarrow> string list \<Rightarrow> string" where
  "join sep [] = []"
| "join sep [x] = x"
| "join sep (x # y # ys) = x @ sep @ join sep (y # ys)"

text \<open>
  \<^verbatim>\<open>Date.now().toString()\<close>: the clock reading, a count of milliseconds, in decimal.
\<close>

definition digit :: "nat \<Rightarrow> char" where
  "digit d =
     (if d = 0 then CHR ''0'' else if d = 1 then CHR ''1'' else if d = 2 then CHR ''2''
      else if d = 3 then CHR ''3'' else if d = 4 then CHR ''4'' else if d = 5 then CHR ''5''
      else if d = 6 then CHR ''6'' else if d = 7 then CHR ''7'' else if d = 8 then CHR ''8''
      else CHR ''9'')"

fun toString :: "nat \<Rightarrow> string" where
  "toString n = (if n < 10 then [digit n] else toString (n div 10) @ [digit (n mod 10)])"

declare toString.simps [simp del]

text \<open>
  The truth value JavaScript gives an optional string in \<^verbatim>\<open>if (x)\<close> and \<^verbatim>\<open>!x\<close>:
  \<^verbatim>\<open>undefined\<close>, \<^verbatim>\<open>null\<close> and the empty string are false.
\<close>

definition truthy :: "string option \<Rightarrow> bool" where
  "truthy v = (case v of None \<Rightarrow> False | Some s \<Rightarrow> s \<noteq> [])"

section \<open>The data model\<close>

text \<open>
  \<^verbatim>\<open>type GroceryItem\<close>. An optional field is an \<open>option\<close>; the field \<^verbatim>\<open>id\<close> is
  \<open>id'\<close> here.
\<close>

record GroceryItem =
  id' :: string
  name :: string
  isEditing :: bool
  healthSuggestion :: "string option"
  suggestionReason :: "string option"
  showingSuggestion :: "bool option"
  isLoadingSuggestion :: "bool option"
  imageUrl :: "string option"
  isLoadingImage :: "bool option"

text \<open>
  How an awaited \<^verbatim>\<open>fetch\<close> ends inside its \<^verbatim>\<open>try\<close> block. \<open>Thrown\<close>: control reaches
  the \<^verbatim>\<open>catch\<close> (the request was rejected, \<^verbatim>\<open>response.ok\<close> was false, the body was not
  JSON, or a later expression of the block threw). \<open>Resolved v\<close>: the response was ok and
  \<open>v\<close> is what the optional chain read from the body, \<^verbatim>\<open>data.choices?.[0]?.message?.content\<close>
  for a suggestion and \<^verbatim>\<open>data.photos?.[0]?.src?.small\<close> for an image, \<open>None\<close> when it is
  \<^verbatim>\<open>undefined\<close>.
\<close>

datatype fetchResult = Thrown | Resolved "string option"

text \<open>A request that has been sent and has not settled: the item id and name it was sent for.\<close>

datatype request = SuggestionRequest string string | ImageRequest string string

text \<open>
  The state of the component \<^verbatim>\<open>GroceryList\<close>: its \<^verbatim>\<open>useState\<close> cells, and beside them
  what it has put into the world: the requests in flight, the number of error alerts shown,
  and the open delete confirmation with the id and the \<^verbatim>\<open>items\<close> array that the closure
  of its Delete button holds.
\<close>

record State =
  items :: "GroceryItem list"
  inputText :: string
  editText :: string
  apiKey :: "string option"
  pexelsApiKey :: "string option"
  isApiKeyModalVisible :: bool
  apiKeyInput :: string
  pexelsApiKeyInput :: string
  apiKeyError :: "string option"
  inFlight :: "request list"
  errorAlerts :: nat
  deleteAlert :: "(string \<times> GroceryItem list) option"

definition initialState :: State where
  "initialState =
     \<lparr>items = [], inputText = [], editText = [], apiKey = None, pexelsApiKey = None,
      isApiKeyModalVisible = False, apiKeyInput = [], pexelsApiKeyInput = [],
      apiKeyError = None, inFlight = [], errorAlerts = 0, deleteAlert = None\<rparr>"

section \<open>The operations of the component\<close>

text \<open>
  Each handler is a function on the state. A \<^verbatim>\<open>setItems(prev => ...)\<close> is applied to the
  items of the state at that point; handlers that read the \<^verbatim>\<open>items\<close> of their render
  (\<^verbatim>\<open>replaceFoodItem\<close>, \<^verbatim>\<open>startEditing\<close>, \<^verbatim>\<open>saveEdit\<close>) read the current items, as they do
  when called from the rendered list. An \<^verbatim>\<open>async\<close> function is two functions: the part
  that runs up to the \<^verbatim>\<open>await fetch\<close>, and \<open>_resolved\<close>, the part that runs when the
  request has settled.
\<close>

text \<open>
  The effect \<^verbatim>\<open>getApiKeys\<close> of the first render, once \<^verbatim>\<open>AsyncStorage\<close> has answered:
  \<open>None\<close> when a read threw, else the two stored values.
\<close>

definition getApiKeys_resolved :: "(string option \<times> string option) option \<Rightarrow> State \<Rightarrow> State" where
  "getApiKeys_resolved stored st =
     (case stored of
        None \<Rightarrow> st\<lparr>apiKeyError := Some ''Failed to retrieve API keys'', isApiKeyModalVisible := True\<rparr>
      | Some (storedApiKey, storedPexelsKey) \<Rightarrow>
          st\<lparr>apiKey := (if truthy storedApiKey then storedApiKey else apiKey st),
             pexelsApiKey := (if truthy storedPexelsKey then storedPexelsKey else pexelsApiKey st),
             isApiKeyModalVisible :=
               (if truthy storedApiKey \<and> truthy storedPexelsKey then isApiKeyModalVisible st
                else True)\<rparr>)"

text \<open>
  \<^verbatim>\<open>saveApiKeys\<close>; \<open>written1\<close> and \<open>written2\<close> say whether the write of the first and of
  the second key to \<^verbatim>\<open>AsyncStorage\<close> succeeds when it is attempted.
\<close>

definition saveApiKeys :: "bool \<Rightarrow> bool \<Rightarrow> State \<Rightarrow> State" where
  "saveApiKeys written1 written2 st =
     (if trim (apiKeyInput st) = [] \<and> trim (pexelsApiKeyInput st) = []
      then st\<lparr>apiKeyError := Some ''Please enter at least one API key''\<rparr>
      else if trim (apiKeyInput st) \<noteq> [] \<and> \<not> written1
      then st\<lparr>apiKeyError := Some ''Failed to save API keys''\<rparr>
      else
        (let st1 = (if trim (apiKeyInput st) \<noteq> [] then st\<lparr>apiKey := Some (apiKeyInput st)\<rparr>
                    else st)
         in if trim (pexelsApiKeyInput st) \<noteq> [] \<and> \<not> written2
            then st1\<lparr>apiKeyError := Some ''Failed to save API keys''\<rparr>
            else
              (let st2 = (if trim (pexelsApiKeyInput st) \<noteq> []
                          then st1\<lparr>pexelsApiKey := Some (pexelsApiKeyInput st)\<rparr> else st1)
               in st2\<lparr>apiKeyError := None, isApiKeyModalVisible := False\<rparr>)))"

text \<open>\<^verbatim>\<open>getItemImage\<close> up to its \<^verbatim>\<open>await fetch\<close>.\<close>

definition getItemImage :: "string \<Rightarrow> string \<Rightarrow> State \<Rightarrow> State" where
  "getItemImage itemId itemName st =
     (if \<not> truthy (pexelsApiKey st) then st
      else st\<lparr>items := map (\<lambda>item. if id' item = itemId then item\<lparr>isLoadingImage := Some True\<rparr>
                                  else item) (items st),
              inFlight := inFlight st @ [ImageRequest itemId itemName]\<rparr>)"

text \<open>\<^verbatim>\<open>getItemImage\<close> from the point where its request has settled.\<close>

definition getItemImage_resolved :: "string \<Rightarrow> fetchResult \<Rightarrow> State \<Rightarrow> State" where
  "getItemImage_resolved itemId result st =
     (case result of
        Thrown \<Rightarrow>
          st\<lparr>items := map (\<lambda>item. if id' item = itemId then item\<lparr>isLoadingImage := Some False\<rparr>
                                 else item) (items st)\<rparr>
      | Resolved url \<Rightarrow>
          if truthy url
          then st\<lparr>items := map (\<lambda>item. if id' item = itemId
                                       then item\<lparr>imageUrl := url, isLoadingImage := Some False\<rparr>
                                       else item) (items st)\<rparr>
          else st\<lparr>items := map (\<lambda>item. if id' item = itemId
                                       then item\<lparr>isLoadingImage := Some False\<rparr>
                                       else item) (items st)\<rparr>)"

text \<open>
  The parsing block of \<^verbatim>\<open>getHealthSuggestion\<close> (the three \<^verbatim>\<open>const\<close> declarations under
  \<^verbatim>\<open>if (suggestion)\<close>): the pair of \<^verbatim>\<open>healthSuggestion\<close> and \<^verbatim>\<open>suggestionReason\<close>.
  \<^verbatim>\<open>lines[0]?.trim()\<close> is \<^verbatim>\<open>undefined\<close> when no line is left.
\<close>

definition parseSuggestion :: "string \<Rightarrow> string option \<times> string" where
  "parseSuggestion suggestion =
     (let lines = filter (\<lambda>line. trim line \<noteq> []) (split_on (CHR 0x0A) suggestion);
          healthSuggestion' = (case lines of [] \<Rightarrow> None | line # _ \<Rightarrow> Some (trim line));
          suggestionReason' = (if length lines > 1 then trim (join '' '' (drop 1 lines)) else [])
      in (healthSuggestion', suggestionReason'))"

text \<open>\<^verbatim>\<open>getHealthSuggestion\<close> up to its \<^verbatim>\<open>await fetch\<close>.\<close>

definition getHealthSuggestion :: "string \<Rightarrow> string \<Rightarrow> State \<Rightarrow> State" where
  "getHealthSuggestion itemId itemName st =
     (if \<not> truthy (apiKey st) then st\<lparr>isApiKeyModalVisible := True\<rparr>
      else st\<lparr>items := map (\<lambda>item. if id' item = itemId
                                  then item\<lparr>isLoadingSuggestion := Some True\<rparr>
                                  else item) (items st),
              inFlight := inFlight st @ [SuggestionRequest itemId itemName]\<rparr>)"

text \<open>
  \<^verbatim>\<open>getHealthSuggestion\<close> from the point where its request has settled. With a content
  that is \<^verbatim>\<open>undefined\<close> or empty the \<^verbatim>\<open>if (suggestion)\<close> has no \<^verbatim>\<open>else\<close>: nothing is set.
\<close>

definition getHealthSuggestion_resolved :: "string \<Rightarrow> fetchResult \<Rightarrow> State \<Rightarrow> State" where
  "getHealthSuggestion_resolved itemId result st =
     (case result of
        Thrown \<Rightarrow>
          st\<lparr>errorAlerts := Suc (errorAlerts st),
             items := map (\<lambda>item. if id' item = itemId
                                  then item\<lparr>isLoadingSuggestion := Some False\<rparr>
                                  else item) (items st)\<rparr>
      | Resolved None \<Rightarrow> st
      | Resolved (Some suggestion) \<Rightarrow>
          if suggestion = [] then st
          else
            (case parseSuggestion suggestion of
               (healthSuggestion', suggestionReason') \<Rightarrow>
                 st\<lparr>items := map (\<lambda>item. if id' item = itemId
                                         then item\<lparr>healthSuggestion := healthSuggestion',
                                                   suggestionReason := Some suggestionReason',
                                                   showingSuggestion := Some True,
                                                   isLoadingSuggestion := Some False\<rparr>
                                         else item) (items st)\<rparr>))"

text \<open>\<^verbatim>\<open>replaceFoodItem\<close>: accept the suggestion of an item.\<close>

definition replaceFoodItem :: "string \<Rightarrow> State \<Rightarrow> State" where
  "replaceFoodItem itemId st =
     (case find (\<lambda>i. id' i = itemId) (items st) of
        None \<Rightarrow> st
      | Some item \<Rightarrow>
          (case healthSuggestion item of
             None \<Rightarrow> st
           | Some newName \<Rightarrow>
               if newName = [] then st
               else getItemImage itemId newName
                      (st\<lparr>items := map (\<lambda>i. if id' i = itemId \<and> truthy (healthSuggestion i)
                                              then i\<lparr>name := newName,
                                                     healthSuggestion := None,
                                                     suggestionReason := None,
                                                     showingSuggestion := Some False,
                                                     imageUrl := None\<rparr>
                                              else i) (items st)\<rparr>)))"

definition dismissSuggestion :: "string \<Rightarrow> State \<Rightarrow> State" where
  "dismissSuggestion itemId st =
     st\<lparr>items := map (\<lambda>item. if id' item = itemId then item\<lparr>showingSuggestion := Some False\<rparr>
                            else item) (items st)\<rparr>"

text \<open>\<^verbatim>\<open>addItem\<close>; \<open>now\<close> is what \<^verbatim>\<open>Date.now()\<close> returns in this call.\<close>

definition addItem :: "nat \<Rightarrow> State \<Rightarrow> State" where
  "addItem now st =
     (if trim (inputText st) = [] then st
      else
        (let newItemId = toString now;
             newItemName = trim (inputText st);
             newItem = \<lparr>id' = newItemId, name = newItemName, isEditing = False,
                        healthSuggestion = None, suggestionReason = None,
                        showingSuggestion = None, isLoadingSuggestion = None,
                        imageUrl = None, isLoadingImage = None\<rparr>
         in getItemImage newItemId newItemName
              (getHealthSuggestion newItemId newItemName
                 (st\<lparr>items := items st @ [newItem], inputText := []\<rparr>))))"

text \<open>
  \<^verbatim>\<open>deleteItem\<close> opens the confirmation; its Delete button runs \<open>deleteItem_onPress\<close>,
  which filters the \<^verbatim>\<open>items\<close> array of the render that opened the confirmation.
\<close>

definition deleteItem :: "string \<Rightarrow> State \<Rightarrow> State" where
  "deleteItem itemId st = st\<lparr>deleteAlert := Some (itemId, items st)\<rparr>"

definition deleteItem_cancel :: "State \<Rightarrow> State" where
  "deleteItem_cancel st = st\<lparr>deleteAlert := None\<rparr>"

definition deleteItem_onPress :: "State \<Rightarrow> State" where
  "deleteItem_onPress st =
     (case deleteAlert st of
        None \<Rightarrow> st
      | Some (itemId, captured) \<Rightarrow>
          st\<lparr>items := filter (\<lambda>item. id' item \<noteq> itemId) captured, deleteAlert := None\<rparr>)"

text \<open>
  \<^verbatim>\<open>startEditing\<close>; \<^verbatim>\<open>setEditText\<close> runs for every item with the id, the last call
  stays.
\<close>

definition startEditing :: "string \<Rightarrow> State \<Rightarrow> State" where
  "startEditing itemId st =
     st\<lparr>items := map (\<lambda>item. if id' item = itemId then item\<lparr>isEditing := True\<rparr>
                            else item\<lparr>isEditing := False\<rparr>) (items st),
        editText := (if filter (\<lambda>item. id' item = itemId) (items st) = [] then editText st
                     else name (last (filter (\<lambda>item. id' item = itemId) (items st))))\<rparr>"

definition saveEdit :: "string \<Rightarrow> State \<Rightarrow> State" where
  "saveEdit itemId st =
     (if trim (editText st) = [] then st
      else st\<lparr>items := map (\<lambda>item. if id' item = itemId
                                  then item\<lparr>name := trim (editText st), isEditing := False\<rparr>
                                  else item) (items st),
              editText := []\<rparr>)"

section \<open>Runs of the component\<close>

text \<open>
  What can happen to the mounted component: the stored keys arrive, the user types, presses
  a button of the list or of the key form (the settings button opens it, Cancel and the
  back button close it when a suggestion key is set), answers the delete confirmation, or
  a request in flight settles.
\<close>

datatype event =
    KeysLoaded "(string option \<times> string option) option"
  | ChangeApiKeyInput string
  | ChangePexelsApiKeyInput string
  | SaveApiKeys bool bool
  | OpenSettings
  | CloseKeyForm
  | ChangeInputText string
  | ChangeEditText string
  | AddItem nat
  | DeleteItem string
  | DeleteCancel
  | DeleteConfirm
  | StartEditing string
  | SaveEdit string
  | ReplaceFoodItem string
  | DismissSuggestion string
  | SuggestionSettled string string fetchResult
  | ImageSettled string string fetchResult

text \<open>
  One event. A request settles only while it is in flight, and a confirmation is answered
  only while it is open; such an event has no successor state elsewhere.
\<close>

fun step :: "event \<Rightarrow> State \<Rightarrow> State option" where
  "step (KeysLoaded stored) st = Some (getApiKeys_resolved stored st)"
| "step (ChangeApiKeyInput text) st = Some (st\<lparr>apiKeyInput := text\<rparr>)"
| "step (ChangePexelsApiKeyInput text) st = Some (st\<lparr>pexelsApiKeyInput := text\<rparr>)"
| "step (SaveApiKeys written1 written2) st = Some (saveApiKeys written1 written2 st)"
| "step OpenSettings st =
     Some (st\<lparr>apiKeyInput := (case apiKey st of None \<Rightarrow> [] | Some key \<Rightarrow> key),
              pexelsApiKeyInput := (case pexelsApiKey st of None \<Rightarrow> [] | Some key \<Rightarrow> key),
              apiKeyError := None, isApiKeyModalVisible := True\<rparr>)"
| "step CloseKeyForm st =
     Some (if truthy (apiKey st) then st\<lparr>isApiKeyModalVisible := False\<rparr> else st)"
| "step (ChangeInputText text) st = Some (st\<lparr>inputText := text\<rparr>)"
| "step (ChangeEditText text) st = Some (st\<lparr>editText := text\<rparr>)"
| "step (AddItem now) st = Some (addItem now st)"
| "step (DeleteItem itemId) st = Some (deleteItem itemId st)"
| "step DeleteCancel st =
     (if deleteAlert st = None then None else Some (deleteItem_cancel st))"
| "step DeleteConfirm st =
     (if deleteAlert st = None then None else Some (deleteItem_onPress st))"
| "step (StartEditing itemId) st = Some (startEditing itemId st)"
| "step (SaveEdit itemId) st = Some (saveEdit itemId st)"
| "step (ReplaceFoodItem itemId) st = Some (replaceFoodItem itemId st)"
| "step (DismissSuggestion itemId) st = Some (dismissSuggestion itemId st)"
| "step (SuggestionSettled itemId itemName result) st =
     (if SuggestionRequest itemId itemName \<in> set (inFlight st)
      then Some (getHealthSuggestion_resolved itemId result
                   (st\<lparr>inFlight := remove1 (SuggestionRequest itemId itemName) (inFlight st)\<rparr>))
      else None)"
| "step (ImageSettled itemId itemName result) st =
     (if ImageRequest itemId itemName \<in> set (inFlight st)
      then Some (getItemImage_resolved itemId result
                   (st\<lparr>inFlight := remove1 (ImageRequest itemId itemName) (inFlight st)\<rparr>))
      else None)"

fun run :: "event list \<Rightarrow> State \<Rightarrow> State option" where
  "run [] st = Some st"
| "run (e # es) st = (case step e st of None \<Rightarrow> None | Some st' \<Rightarrow> run es st')"

section \<open>The two axes of enrichment\<close>

text \<open>
  The fields of an item that the suggestion request owns, those that the image request
  owns, and the rest.
\<close>

definition suggestionFields ::
  "GroceryItem \<Rightarrow> string option \<times> string option \<times> bool option \<times> bool option" where
  "suggestionFields item =
     (healthSuggestion item, suggestionReason item, showingSuggestion item,
      isLoadingSuggestion item)"

definition imageFields :: "GroceryItem \<Rightarrow> string option \<times> bool option" where
  "imageFields item = (imageUrl item, isLoadingImage item)"

definition otherFields :: "GroceryItem \<Rightarrow> string \<times> string \<times> bool" where
  "otherFields item = (id' item, name item, isEditing item)"

section \<open>The parser as the specification words it\<close>

text \<open>
  Section 4.2 of the specification, word for word, to compare \<open>parseSuggestion\<close> with:
  split on line breaks, discard the lines that are empty after trimming, take the first
  line left as the alternative, join the other lines left with a single space as the
  reason.
\<close>

definition parser_as_specified :: "string \<Rightarrow> string option \<times> string" where
  "parser_as_specified text =
     (case filter (\<lambda>line. trim line \<noteq> []) (split_on (CHR 0x0A) text) of
        [] \<Rightarrow> (None, [])
      | alternative # remaining \<Rightarrow> (Some alternative, join '' '' remaining))"

section \<open>A shown suggestion and its value\<close>

text \<open>
  The flag \<^verbatim>\<open>showingSuggestion\<close> of an item is backed by a suggestion; the same of all
  items of the state and of the array held by an open delete confirmation, which becomes
  the items when Delete is pressed.
\<close>

definition shownHasSuggestion :: "GroceryItem \<Rightarrow> bool" where
  "shownHasSuggestion item =
     (showingSuggestion item = Some True \<longrightarrow> truthy (healthSuggestion item))"

definition shownInvariant :: "State \<Rightarrow> bool" where
  "shownInvariant st =
     (list_all shownHasSuggestion (items st)
      \<and> (case deleteAlert st of
            None \<Rightarrow> True
          | Some (itemId, captured) \<Rightarrow> list_all shownHasSuggestion captured))"

text \<open>
  The event of a suggestion request that settles with a content which is not empty and has
  blank lines only.
\<close>

fun settlesWithBlankLines :: "event \<Rightarrow> bool" where
  "settlesWithBlankLines (SuggestionSettled itemId itemName (Resolved (Some content))) =
     (content \<noteq> [] \<and> filter (\<lambda>line. trim line \<noteq> []) (split_on (CHR 0x0A) content) = [])"
| "settlesWithBlankLines _ = False"

section \<open>Ids and the clock\<close>

text \<open>The clock readings of the \<open>addItem\<close> calls of a run, in order.\<close>

fun clockReadings :: "event list \<Rightarrow> nat list" where
  "clockReadings [] = []"
| "clockReadings (AddItem now # es) = now # clockReadings es"
| "clockReadings (e # es) = clockReadings es"

text \<open>
  A list of items has pairwise distinct ids, each the decimal of a clock reading in
  \<open>used\<close>, and at most one of the items is editing; the same of the items of the state
  and of the array held by an open delete confirmation.
\<close>

definition wellKeyed :: "nat set \<Rightarrow> GroceryItem list \<Rightarrow> bool" where
  "wellKeyed used xs =
     (distinct (map id' xs) \<and> id' ` set xs \<subseteq> toString ` used
      \<and> length (filter isEditing xs) \<le> 1)"

definition idsInvariant :: "nat set \<Rightarrow> State \<Rightarrow> bool" where
  "idsInvariant used st =
     (wellKeyed used (items st)
      \<and> (case deleteAlert st of
            None \<Rightarrow> True
          | Some (itemId, captured) \<Rightarrow> wellKeyed used captured))"

section \<open>Properties\<close>

subsection \<open>Evaluation of the string functions\<close>

lemma toString_example: "toString 1700000000000 = ''1700000000000''"
  by (simp add: toString.simps digit_def)

lemma trim_milk: "trim ''milk'' = ''milk''"
  by (simp add: trim_def isWhiteSpace_def)

lemma trim_eggs: "trim ''eggs'' = ''eggs''"
  by (simp add: trim_def isWhiteSpace_def)

lemma trim_sk: "trim ''sk'' = ''sk''"
  by (simp add: trim_def isWhiteSpace_def)

lemma trim_pk: "trim ''pk'' = ''pk''"
  by (simp add: trim_def isWhiteSpace_def)

lemma trim_Nil [simp]: "trim [] = []"
  by (simp add: trim_def)

lemma parseSuggestion_oat_milk_reason:
  "parseSuggestion ''Oat milk\<newline>It has less sugar.'' = (Some ''Oat milk'', ''It has less sugar.'')"
  by code_simp

lemma run_append:
  "run (es @ es') st = (case run es st of None \<Rightarrow> None | Some st' \<Rightarrow> run es' st')"
  by (induction es arbitrary: st) (auto split: option.splits)

subsection \<open>Patches are addressed by id and touch their own fields\<close>

lemma patch_absent:
  "itemId \<notin> id' ` set xs \<Longrightarrow>
   map (\<lambda>item. if id' item = itemId then f item else item) xs = xs"
  by (induction xs) auto

lemma find_distinct_id:
  assumes "distinct (map id' xs)" "k < length xs"
  shows "find (\<lambda>i. id' i = id' (xs ! k)) xs = Some (xs ! k)"
  using assms
proof (induction xs arbitrary: k)
  case Nil
  then show ?case by simp
next
  case (Cons x xs)
  show ?case
  proof (cases k)
    case 0
    then show ?thesis by simp
  next
    case (Suc j)
    with Cons.prems have "id' x \<noteq> id' (xs ! j)" by auto
    with Suc Cons show ?thesis by auto
  qed
qed

lemma find_absent: "itemId \<notin> id' ` set xs \<Longrightarrow> find (\<lambda>i. id' i = itemId) xs = None"
  by (induction xs) auto

lemma patch_distinct_id:
  assumes "distinct (map id' xs)" "k < length xs" "c (xs ! k)"
  shows "map (\<lambda>i. if id' i = id' (xs ! k) \<and> c i then f i else i) xs = xs[k := f (xs ! k)]"
  using assms
proof (induction xs arbitrary: k)
  case Nil
  then show ?case by simp
next
  case (Cons x xs)
  show ?case
  proof (cases k)
    case 0
    with Cons.prems have "id' x \<notin> id' ` set xs" by simp
    then have "map (\<lambda>i. if id' i = id' x \<and> c i then f i else i) xs = xs"
      by (induction xs) auto
    with 0 Cons.prems show ?thesis by simp
  next
    case (Suc j)
    with Cons.prems have "id' x \<noteq> id' (xs ! j)" by auto
    with Suc Cons show ?thesis by auto
  qed
qed

lemma image_settled_frame:
  "map suggestionFields (items (getItemImage_resolved itemId r st)) = map suggestionFields (items st)
   \<and> map otherFields (items (getItemImage_resolved itemId r st)) = map otherFields (items st)"
  by (auto simp: getItemImage_resolved_def suggestionFields_def otherFields_def
           split: fetchResult.splits)

lemma suggestion_settled_frame:
  "map imageFields (items (getHealthSuggestion_resolved itemId q st)) = map imageFields (items st)
   \<and> map otherFields (items (getHealthSuggestion_resolved itemId q st)) = map otherFields (items st)"
  by (auto simp: getHealthSuggestion_resolved_def imageFields_def otherFields_def
           split: fetchResult.splits option.splits prod.splits)

lemma settled_commute:
  "getItemImage_resolved i r (getHealthSuggestion_resolved j q st)
     = getHealthSuggestion_resolved j q (getItemImage_resolved i r st)"
  by (auto simp: getHealthSuggestion_resolved_def getItemImage_resolved_def
           split: fetchResult.splits option.splits prod.splits)

lemma inFlight_image_settled [simp]:
  "inFlight (getItemImage_resolved itemId r st) = inFlight st"
  by (simp add: getItemImage_resolved_def split: fetchResult.splits)

lemma inFlight_suggestion_settled [simp]:
  "inFlight (getHealthSuggestion_resolved itemId q st) = inFlight st"
  by (simp add: getHealthSuggestion_resolved_def split: fetchResult.splits option.splits prod.splits)

lemma image_settled_inFlight_update:
  "getItemImage_resolved itemId r (st\<lparr>inFlight := fl\<rparr>)
     = (getItemImage_resolved itemId r st)\<lparr>inFlight := fl\<rparr>"
  by (simp add: getItemImage_resolved_def split: fetchResult.splits)

lemma suggestion_settled_inFlight_update:
  "getHealthSuggestion_resolved itemId q (st\<lparr>inFlight := fl\<rparr>)
     = (getHealthSuggestion_resolved itemId q st)\<lparr>inFlight := fl\<rparr>"
  by (simp add: getHealthSuggestion_resolved_def split: fetchResult.splits option.splits prod.splits)

lemma settle_in_either_order:
  assumes img: "ImageRequest itemId imgName \<in> set (inFlight st)"
    and sug: "SuggestionRequest itemId sugName \<in> set (inFlight st)"
  shows "run [ImageSettled itemId imgName r, SuggestionSettled itemId sugName q] st
           = run [SuggestionSettled itemId sugName q, ImageSettled itemId imgName r] st"
    and "run [ImageSettled itemId imgName r, SuggestionSettled itemId sugName q] st
           = Some ((getHealthSuggestion_resolved itemId q (getItemImage_resolved itemId r st))
                     \<lparr>inFlight := remove1 (SuggestionRequest itemId sugName)
                                    (remove1 (ImageRequest itemId imgName) (inFlight st))\<rparr>)"
  using img sug
  by (simp_all add: image_settled_inFlight_update suggestion_settled_inFlight_update
        settled_commute remove1_commute)

text \<open>
  The patch of a settled image request leaves the suggestion fields (and id, name and
  editing flag) of every item as they were, and the patch of a settled suggestion request
  leaves the image fields of every item as they were. The two patches commute, and two
  requests in flight for an id can settle in either order with the same final state.
\<close>

lemma settled_patches_disjoint:
  assumes img: "ImageRequest itemId imgName \<in> set (inFlight st)"
    and sug: "SuggestionRequest itemId sugName \<in> set (inFlight st)"
  shows "map suggestionFields (items (getItemImage_resolved itemId r st))
           = map suggestionFields (items st)
       \<and> map otherFields (items (getItemImage_resolved itemId r st)) = map otherFields (items st)
       \<and> map imageFields (items (getHealthSuggestion_resolved itemId q st))
           = map imageFields (items st)
       \<and> map otherFields (items (getHealthSuggestion_resolved itemId q st))
           = map otherFields (items st)
       \<and> getItemImage_resolved itemId r (getHealthSuggestion_resolved itemId q st)
           = getHealthSuggestion_resolved itemId q (getItemImage_resolved itemId r st)
       \<and> run [ImageSettled itemId imgName r, SuggestionSettled itemId sugName q] st
           = run [SuggestionSettled itemId sugName q, ImageSettled itemId imgName r] st
       \<and> run [ImageSettled itemId imgName r, SuggestionSettled itemId sugName q] st
           = Some ((getHealthSuggestion_resolved itemId q (getItemImage_resolved itemId r st))
                     \<lparr>inFlight := remove1 (SuggestionRequest itemId sugName)
                                    (remove1 (ImageRequest itemId imgName) (inFlight st))\<rparr>)"
proof -
  note order = settle_in_either_order [OF img sug]
  from order show ?thesis
    by (simp only: image_settled_frame suggestion_settled_frame settled_commute simp_thms)
qed

text \<open>
  What each settled request writes, for the item at position \<open>k\<close> of a collection with
  pairwise distinct ids; every other item stays as it is. A failed image request and one
  with no result reset \<^verbatim>\<open>isLoadingImage\<close>, one with a result also stores the image. A
  failed suggestion request resets \<^verbatim>\<open>isLoadingSuggestion\<close>, one with a content that is not
  empty stores the parsed pair, shows it and resets the flag, and one whose content is
  \<^verbatim>\<open>undefined\<close> or empty writes nothing.
\<close>

lemma settled_outcomes:
  assumes d: "distinct (map id' (items st))" and k: "k < length (items st)"
  shows "items (getItemImage_resolved (id' (items st ! k)) Thrown st)
           = (items st)[k := (items st ! k)\<lparr>isLoadingImage := Some False\<rparr>]"
    and "items (getItemImage_resolved (id' (items st ! k)) (Resolved None) st)
           = (items st)[k := (items st ! k)\<lparr>isLoadingImage := Some False\<rparr>]"
    and "items (getItemImage_resolved (id' (items st ! k)) (Resolved (Some [])) st)
           = (items st)[k := (items st ! k)\<lparr>isLoadingImage := Some False\<rparr>]"
    and "url \<noteq> [] \<Longrightarrow>
         items (getItemImage_resolved (id' (items st ! k)) (Resolved (Some url)) st)
           = (items st)[k := (items st ! k)\<lparr>imageUrl := Some url,
                                              isLoadingImage := Some False\<rparr>]"
    and "items (getHealthSuggestion_resolved (id' (items st ! k)) Thrown st)
           = (items st)[k := (items st ! k)\<lparr>isLoadingSuggestion := Some False\<rparr>]"
    and "content \<noteq> [] \<Longrightarrow>
         items (getHealthSuggestion_resolved (id' (items st ! k)) (Resolved (Some content)) st)
           = (items st)[k := (items st ! k)
                \<lparr>healthSuggestion := fst (parseSuggestion content),
                 suggestionReason := Some (snd (parseSuggestion content)),
                 showingSuggestion := Some True,
                 isLoadingSuggestion := Some False\<rparr>]"
    and "getHealthSuggestion_resolved (id' (items st ! k)) (Resolved None) st = st"
    and "getHealthSuggestion_resolved (id' (items st ! k)) (Resolved (Some [])) st = st"
proof -
  have patch: "map (\<lambda>item. if id' item = id' (items st ! k) then f item else item) (items st)
      = (items st)[k := f (items st ! k)]" for f
    using patch_distinct_id [OF d k, of "\<lambda>i. True" f] by simp
  show "items (getItemImage_resolved (id' (items st ! k)) Thrown st)
           = (items st)[k := (items st ! k)\<lparr>isLoadingImage := Some False\<rparr>]"
    by (simp add: getItemImage_resolved_def patch)
  show "items (getItemImage_resolved (id' (items st ! k)) (Resolved None) st)
           = (items st)[k := (items st ! k)\<lparr>isLoadingImage := Some False\<rparr>]"
    by (simp add: getItemImage_resolved_def truthy_def patch)
  show "items (getItemImage_resolved (id' (items st ! k)) (Resolved (Some [])) st)
           = (items st)[k := (items st ! k)\<lparr>isLoadingImage := Some False\<rparr>]"
    by (simp add: getItemImage_resolved_def truthy_def patch)
  show "url \<noteq> [] \<Longrightarrow>
         items (getItemImage_resolved (id' (items st ! k)) (Resolved (Some url)) st)
           = (items st)[k := (items st ! k)\<lparr>imageUrl := Some url,
                                              isLoadingImage := Some False\<rparr>]"
    by (simp add: getItemImage_resolved_def truthy_def patch)
  show "items (getHealthSuggestion_resolved (id' (items st ! k)) Thrown st)
           = (items st)[k := (items st ! k)\<lparr>isLoadingSuggestion := Some False\<rparr>]"
    by (simp add: getHealthSuggestion_resolved_def patch)
  show "content \<noteq> [] \<Longrightarrow>
         items (getHealthSuggestion_resolved (id' (items st ! k)) (Resolved (Some content)) st)
           = (items st)[k := (items st ! k)
                \<lparr>healthSuggestion := fst (parseSuggestion content),
                 suggestionReason := Some (snd (parseSuggestion content)),
                 showingSuggestion := Some True,
                 isLoadingSuggestion := Some False\<rparr>]"
    by (simp add: getHealthSuggestion_resolved_def patch split: prod.splits)
  show "getHealthSuggestion_resolved (id' (items st ! k)) (Resolved None) st = st"
    by (simp add: getHealthSuggestion_resolved_def)
  show "getHealthSuggestion_resolved (id' (items st ! k)) (Resolved (Some [])) st = st"
    by (simp add: getHealthSuggestion_resolved_def)
qed

text \<open>
  The run of the next example: no key is stored, the user saves both keys, types "milk"
  and presses Add at clock reading 1700000000000; both requests are in flight.
\<close>

lemma run_add_milk_both_keys:
  "run [KeysLoaded (Some (None, None)), ChangeApiKeyInput ''sk'',
        ChangePexelsApiKeyInput ''pk'', SaveApiKeys True True, ChangeInputText ''milk'',
        AddItem 1700000000000] initialState
   = Some \<lparr>items = [\<lparr>id' = ''1700000000000'', name = ''milk'', isEditing = False,
                      healthSuggestion = None, suggestionReason = None,
                      showingSuggestion = None, isLoadingSuggestion = Some True,
                      imageUrl = None, isLoadingImage = Some True\<rparr>],
           inputText = [], editText = [], apiKey = Some ''sk'', pexelsApiKey = Some ''pk'',
           isApiKeyModalVisible = False, apiKeyInput = ''sk'', pexelsApiKeyInput = ''pk'',
           apiKeyError = None, inFlight = [SuggestionRequest ''1700000000000'' ''milk'',
                       ImageRequest ''1700000000000'' ''milk''],
           errorAlerts = 0, deleteAlert = None\<rparr>"
  by (simp add: initialState_def getApiKeys_resolved_def saveApiKeys_def addItem_def
      getHealthSuggestion_def getItemImage_def truthy_def trim_sk trim_pk trim_milk
      toString_example Let_def)

text \<open>
  C1. Both requests of the item "milk" are in flight. The image request settles with an
  image and the suggestion request settles with an ok response whose content is
  \<^verbatim>\<open>undefined\<close>, in either order. After both, no request is in flight, the image fields
  show the outcome of the image request, and the suggestion fields do not show that the
  suggestion request has completed: \<^verbatim>\<open>isLoadingSuggestion\<close> is still true. (With a
  content of two lines in place of \<^verbatim>\<open>undefined\<close> the suggestion fields show it.)
\<close>

theorem suggestion_pending_after_both_settled:
  "run [KeysLoaded (Some (None, None)), ChangeApiKeyInput ''sk'',
        ChangePexelsApiKeyInput ''pk'', SaveApiKeys True True, ChangeInputText ''milk'',
        AddItem 1700000000000,
        ImageSettled ''1700000000000'' ''milk'' (Resolved (Some ''https://img/1'')),
        SuggestionSettled ''1700000000000'' ''milk'' (Resolved None)] initialState
   = Some \<lparr>items = [\<lparr>id' = ''1700000000000'', name = ''milk'', isEditing = False,
                      healthSuggestion = None, suggestionReason = None,
                      showingSuggestion = None, isLoadingSuggestion = Some True,
                      imageUrl = Some ''https://img/1'', isLoadingImage = Some False\<rparr>],
           inputText = [], editText = [], apiKey = Some ''sk'', pexelsApiKey = Some ''pk'',
           isApiKeyModalVisible = False, apiKeyInput = ''sk'', pexelsApiKeyInput = ''pk'',
           apiKeyError = None, inFlight = [],
           errorAlerts = 0, deleteAlert = None\<rparr>
   \<and> run [KeysLoaded (Some (None, None)), ChangeApiKeyInput ''sk'',
        ChangePexelsApiKeyInput ''pk'', SaveApiKeys True True, ChangeInputText ''milk'',
        AddItem 1700000000000,
        SuggestionSettled ''1700000000000'' ''milk'' (Resolved None),
        ImageSettled ''1700000000000'' ''milk'' (Resolved (Some ''https://img/1''))] initialState
   = Some \<lparr>items = [\<lparr>id' = ''1700000000000'', name = ''milk'', isEditing = False,
                      healthSuggestion = None, suggestionReason = None,
                      showingSuggestion = None, isLoadingSuggestion = Some True,
                      imageUrl = Some ''https://img/1'', isLoadingImage = Some False\<rparr>],
           inputText = [], editText = [], apiKey = Some ''sk'', pexelsApiKey = Some ''pk'',
           isApiKeyModalVisible = False, apiKeyInput = ''sk'', pexelsApiKeyInput = ''pk'',
           apiKeyError = None, inFlight = [],
           errorAlerts = 0, deleteAlert = None\<rparr>
   \<and> run [KeysLoaded (Some (None, None)), ChangeApiKeyInput ''sk'',
        ChangePexelsApiKeyInput ''pk'', SaveApiKeys True True, ChangeInputText ''milk'',
        AddItem 1700000000000,
        SuggestionSettled ''1700000000000'' ''milk''
          (Resolved (Some ''Oat milk\<newline>It has less sugar.'')),
        ImageSettled ''1700000000000'' ''milk'' (Resolved (Some ''https://img/1''))] initialState
   = Some \<lparr>items = [\<lparr>id' = ''1700000000000'', name = ''milk'', isEditing = False,
                      healthSuggestion = Some ''Oat milk'',
                      suggestionReason = Some ''It has less sugar.'',
                      showingSuggestion = Some True, isLoadingSuggestion = Some False,
                      imageUrl = Some ''https://img/1'', isLoadingImage = Some False\<rparr>],
           inputText = [], editText = [], apiKey = Some ''sk'', pexelsApiKey = Some ''pk'',
           isApiKeyModalVisible = False, apiKeyInput = ''sk'', pexelsApiKeyInput = ''pk'',
           apiKeyError = None, inFlight = [],
           errorAlerts = 0, deleteAlert = None\<rparr>"
proof -
  have image_first: "run ([KeysLoaded (Some (None, None)), ChangeApiKeyInput ''sk'',
        ChangePexelsApiKeyInput ''pk'', SaveApiKeys True True, ChangeInputText ''milk'',
        AddItem 1700000000000] @
        [ImageSettled ''1700000000000'' ''milk'' (Resolved (Some ''https://img/1'')),
         SuggestionSettled ''1700000000000'' ''milk'' (Resolved None)]) initialState
   = Some \<lparr>items = [\<lparr>id' = ''1700000000000'', name = ''milk'', isEditing = False,
                      healthSuggestion = None, suggestionReason = None,
                      showingSuggestion = None, isLoadingSuggestion = Some True,
                      imageUrl = Some ''https://img/1'', isLoadingImage = Some False\<rparr>],
           inputText = [], editText = [], apiKey = Some ''sk'', pexelsApiKey = Some ''pk'',
           isApiKeyModalVisible = False, apiKeyInput = ''sk'', pexelsApiKeyInput = ''pk'',
           apiKeyError = None, inFlight = [],
           errorAlerts = 0, deleteAlert = None\<rparr>"
    unfolding run_append run_add_milk_both_keys
    by (simp add: getItemImage_resolved_def getHealthSuggestion_resolved_def truthy_def)
  have suggestion_first: "run ([KeysLoaded (Some (None, None)), ChangeApiKeyInput ''sk'',
        ChangePexelsApiKeyInput ''pk'', SaveApiKeys True True, ChangeInputText ''milk'',
        AddItem 1700000000000] @
        [SuggestionSettled ''1700000000000'' ''milk'' (Resolved None),
         ImageSettled ''1700000000000'' ''milk'' (Resolved (Some ''https://img/1''))]) initialState
   = Some \<lparr>items = [\<lparr>id' = ''1700000000000'', name = ''milk'', isEditing = False,
                      healthSuggestion = None, suggestionReason = None,
                      showingSuggestion = None, isLoadingSuggestion = Some True,
                      imageUrl = Some ''https://img/1'', isLoadingImage = Some False\<rparr>],
           inputText = [], editText = [], apiKey = Some ''sk'', pexelsApiKey = Some ''pk'',
           isApiKeyModalVisible = False, apiKeyInput = ''sk'', pexelsApiKeyInput = ''pk'',
           apiKeyError = None, inFlight = [],
           errorAlerts = 0, deleteAlert = None\<rparr>"
    unfolding run_append run_add_milk_both_keys
    by (simp add: getItemImage_resolved_def getHealthSuggestion_resolved_def truthy_def)
  have with_content: "run ([KeysLoaded (Some (None, None)), ChangeApiKeyInput ''sk'',
        ChangePexelsApiKeyInput ''pk'', SaveApiKeys True True, ChangeInputText ''milk'',
        AddItem 1700000000000] @
        [SuggestionSettled ''1700000000000'' ''milk''
          (Resolved (Some ''Oat milk\<newline>It has less sugar.'')),
         ImageSettled ''1700000000000'' ''milk'' (Resolved (Some ''https://img/1''))]) initialState
   = Some \<lparr>items = [\<lparr>id' = ''1700000000000'', name = ''milk'', isEditing = False,
                      healthSuggestion = Some ''Oat milk'',
                      suggestionReason = Some ''It has less sugar.'',
                      showingSuggestion = Some True, isLoadingSuggestion = Some False,
                      imageUrl = Some ''https://img/1'', isLoadingImage = Some False\<rparr>],
           inputText = [], editText = [], apiKey = Some ''sk'', pexelsApiKey = Some ''pk'',
           isApiKeyModalVisible = False, apiKeyInput = ''sk'', pexelsApiKeyInput = ''pk'',
           apiKeyError = None, inFlight = [],
           errorAlerts = 0, deleteAlert = None\<rparr>"
    unfolding run_append run_add_milk_both_keys
    by (simp add: getItemImage_resolved_def getHealthSuggestion_resolved_def truthy_def
        parseSuggestion_oat_milk_reason)
  from image_first suggestion_first with_content show ?thesis
    by (simp only: append.simps simp_thms)
qed

lemma deleted_id_absent:
  "deleteAlert st = Some (itemId, captured) \<Longrightarrow>
   itemId \<notin> id' ` set (items (deleteItem_onPress st))"
  by (auto simp: deleteItem_onPress_def)

text \<open>
  C2. A patch of a settled request that is addressed to an id no item has leaves the
  collection as it is: the image patch leaves the whole state unchanged, the suggestion
  patch leaves the items unchanged (after a failed request it counts its alert, which is
  the notice to the user and no error of the patch). In particular, once the Delete
  button of the confirmation for an id has run, no item has the id, and either patch for
  it changes no item.
\<close>

theorem patch_for_absent_id:
  "(itemId \<notin> id' ` set (items st) \<longrightarrow>
      getItemImage_resolved itemId r st = st
      \<and> items (getHealthSuggestion_resolved itemId q st) = items st)
   \<and> (deleteAlert st = Some (itemId, captured) \<longrightarrow>
      getItemImage_resolved itemId r (deleteItem_onPress st) = deleteItem_onPress st
      \<and> items (getHealthSuggestion_resolved itemId q (deleteItem_onPress st))
          = items (deleteItem_onPress st))"
proof -
  have absent: "getItemImage_resolved itemId r s = s
      \<and> items (getHealthSuggestion_resolved itemId q s) = items s"
    if "itemId \<notin> id' ` set (items s)" for s
    using that
    by (simp add: getItemImage_resolved_def getHealthSuggestion_resolved_def patch_absent
           split: fetchResult.splits option.splits prod.splits)
  from absent [of st] absent [OF deleted_id_absent [of st itemId captured]] show ?thesis
    by blast
qed

theorem patch_for_absent_id_witness:
  "deleteAlert (deleteItem ''1700000000000'' (addItem 1700000000000
          (initialState\<lparr>apiKey := Some ''sk'', pexelsApiKey := Some ''pk'',
                         inputText := ''milk''\<rparr>)))
     = Some (''1700000000000'', items (addItem 1700000000000
          (initialState\<lparr>apiKey := Some ''sk'', pexelsApiKey := Some ''pk'',
                         inputText := ''milk''\<rparr>)))
   \<and> items (deleteItem_onPress (deleteItem ''1700000000000'' (addItem 1700000000000
          (initialState\<lparr>apiKey := Some ''sk'', pexelsApiKey := Some ''pk'',
                         inputText := ''milk''\<rparr>)))) = []
   \<and> getItemImage_resolved ''1700000000000'' (Resolved (Some ''https://img/1''))
        (deleteItem_onPress (deleteItem ''1700000000000'' (addItem 1700000000000
          (initialState\<lparr>apiKey := Some ''sk'', pexelsApiKey := Some ''pk'',
                         inputText := ''milk''\<rparr>))))
     = deleteItem_onPress (deleteItem ''1700000000000'' (addItem 1700000000000
          (initialState\<lparr>apiKey := Some ''sk'', pexelsApiKey := Some ''pk'',
                         inputText := ''milk''\<rparr>)))
   \<and> items (getHealthSuggestion_resolved ''1700000000000'' (Resolved (Some ''Oat milk''))
        (deleteItem_onPress (deleteItem ''1700000000000'' (addItem 1700000000000
          (initialState\<lparr>apiKey := Some ''sk'', pexelsApiKey := Some ''pk'',
                         inputText := ''milk''\<rparr>))))) = []
   \<and> ''1700000000000'' \<notin> id' ` set (items initialState)
   \<and> getItemImage_resolved ''1700000000000'' Thrown initialState = initialState
   \<and> items (getHealthSuggestion_resolved ''1700000000000'' Thrown initialState) = []"
proof -
  have opened: "deleteAlert (deleteItem ''1700000000000'' (addItem 1700000000000
          (initialState\<lparr>apiKey := Some ''sk'', pexelsApiKey := Some ''pk'',
                         inputText := ''milk''\<rparr>)))
     = Some (''1700000000000'', items (addItem 1700000000000
          (initialState\<lparr>apiKey := Some ''sk'', pexelsApiKey := Some ''pk'',
                         inputText := ''milk''\<rparr>)))"
    by (simp add: deleteItem_def)
  have gone: "items (deleteItem_onPress (deleteItem ''1700000000000'' (addItem 1700000000000
          (initialState\<lparr>apiKey := Some ''sk'', pexelsApiKey := Some ''pk'',
                         inputText := ''milk''\<rparr>)))) = []"
    by (simp add: deleteItem_onPress_def deleteItem_def addItem_def getItemImage_def
          getHealthSuggestion_def initialState_def truthy_def toString_example trim_milk Let_def)
  have none: "''1700000000000'' \<notin> id' ` set (items initialState)"
    by (simp add: initialState_def)
  have empty: "items initialState = []"
    by (simp add: initialState_def)
  note deleted = patch_for_absent_id [THEN conjunct2, rule_format, OF opened]
  note absent = patch_for_absent_id [THEN conjunct1, rule_format, OF none]
  from deleted [of "Resolved (Some ''https://img/1'')" "Resolved (Some ''Oat milk'')"]
    absent [of Thrown Thrown] opened gone none empty
  show ?thesis by simp
qed

subsection \<open>The suggestion parser\<close>

lemma split_on_not_Nil: "split_on sep s \<noteq> []"
  by (induction s) (auto split: list.splits)

lemma join_split_on: "join [sep] (split_on sep s) = s"
proof (induction s)
  case Nil
  then show ?case by simp
next
  case (Cons c cs)
  obtain l ls where eq: "split_on sep cs = l # ls"
    using split_on_not_Nil [of sep cs] by (cases "split_on sep cs") auto
  with Cons show ?case
    by (cases ls) auto
qed

lemma split_on_no_sep: "l \<in> set (split_on sep s) \<Longrightarrow> sep \<notin> set l"
  by (induction s arbitrary: l) (auto split: if_splits list.splits)

lemma trim_decompose:
  "\<exists>pre suf. s = pre @ trim s @ suf \<and> list_all isWhiteSpace pre \<and> list_all isWhiteSpace suf"
proof -
  let ?a = "dropWhile isWhiteSpace s"
  have 1: "s = takeWhile isWhiteSpace s @ ?a" by simp
  have 2: "rev ?a = takeWhile isWhiteSpace (rev ?a) @ dropWhile isWhiteSpace (rev ?a)" by simp
  then have "?a = trim s @ rev (takeWhile isWhiteSpace (rev ?a))"
    unfolding trim_def by (metis rev_append rev_rev_ident)
  with 1 have "s = takeWhile isWhiteSpace s @ trim s @ rev (takeWhile isWhiteSpace (rev ?a))"
    by simp
  moreover have "list_all isWhiteSpace (takeWhile isWhiteSpace s)"
    by (simp add: list_all_iff) (meson set_takeWhileD)
  moreover have "list_all isWhiteSpace (rev (takeWhile isWhiteSpace (rev ?a)))"
    by (simp add: list_all_iff) (meson set_takeWhileD)
  ultimately show ?thesis by blast
qed

lemma trim_ends:
  assumes "trim s \<noteq> []"
  shows "\<not> isWhiteSpace (hd (trim s)) \<and> \<not> isWhiteSpace (last (trim s))"
proof -
  let ?a = "dropWhile isWhiteSpace s"
  let ?b = "dropWhile isWhiteSpace (rev ?a)"
  have b: "?b \<noteq> []" using assms by (simp add: trim_def)
  then have hb: "\<not> isWhiteSpace (hd ?b)" by (rule hd_dropWhile)
  have last: "last (trim s) = hd ?b" using b by (simp add: trim_def last_rev)
  have "?a \<noteq> []"
  proof
    assume "?a = []"
    then have "?b = []" by (metis dropWhile.simps(1) rev.simps(1))
    with b show False by simp
  qed
  then have ha: "\<not> isWhiteSpace (hd ?a)" by (rule hd_dropWhile)
  have "rev ?a = takeWhile isWhiteSpace (rev ?a) @ ?b" by simp
  then have "?a = rev ?b @ rev (takeWhile isWhiteSpace (rev ?a))"
    by (metis rev_append rev_rev_ident)
  then have "hd ?a = hd (rev ?b)" using b by (metis hd_append2 rev_is_Nil_conv)
  with ha have "\<not> isWhiteSpace (hd (trim s))" by (simp add: trim_def)
  with hb last show ?thesis by simp
qed

lemma parseSuggestion_cases:
  "parseSuggestion text =
     (case filter (\<lambda>line. trim line \<noteq> []) (split_on (CHR 0x0A) text) of
        [] \<Rightarrow> (None, [])
      | line # rest \<Rightarrow> (Some (trim line), trim (join '' '' rest)))"
  by (auto simp: parseSuggestion_def Let_def trim_def split: list.splits)

lemma parseSuggestion_oat_milk:
  "parseSuggestion ''Oat milk\<newline>\<newline>Because it has less sugar.''
     = (Some ''Oat milk'', ''Because it has less sugar.'')"
  by code_simp

lemma parseSuggestion_empty: "parseSuggestion [] = (None, [])"
  by code_simp

text \<open>
  C8, amended. For every text, \<open>parseSuggestion\<close> splits at the line feeds (joining the
  pieces with line feeds gives the text back, and no piece holds a line feed), discards
  the lines that trim to the empty string, and returns the first line left, trimmed, as the
  alternative and the other lines left, joined with single spaces and then trimmed as one
  string, as the reason; with no line left the alternative is undefined and the reason is
  empty. Trimming removes white space at the two ends only and leaves none there. The text
  "Oat milk", blank line, "Because it has less sugar." gives that alternative and that
  reason, and the empty text gives no alternative. The function is total.
\<close>

theorem parseSuggestion_result:
  "parseSuggestion text =
     (case filter (\<lambda>line. trim line \<noteq> []) (split_on (CHR 0x0A) text) of
        [] \<Rightarrow> (None, [])
      | line # rest \<Rightarrow> (Some (trim line), trim (join '' '' rest)))
   \<and> join [CHR 0x0A] (split_on (CHR 0x0A) text) = text
   \<and> list_all (\<lambda>line. CHR 0x0A \<notin> set line) (split_on (CHR 0x0A) text)
   \<and> (\<exists>pre suf. s = pre @ trim s @ suf \<and> list_all isWhiteSpace pre \<and> list_all isWhiteSpace suf)
   \<and> (trim s \<noteq> [] \<longrightarrow> \<not> isWhiteSpace (hd (trim s)) \<and> \<not> isWhiteSpace (last (trim s)))
   \<and> parseSuggestion ''Oat milk\<newline>\<newline>Because it has less sugar.''
       = (Some ''Oat milk'', ''Because it has less sugar.'')
   \<and> parseSuggestion [] = (None, [])"
proof -
  have "list_all (\<lambda>line. CHR 0x0A \<notin> set line) (split_on (CHR 0x0A) text)"
    unfolding list_all_iff using split_on_no_sep by blast
  with parseSuggestion_cases [of "text"] join_split_on [of "CHR 0x0A" "text"] trim_decompose [of s]
    trim_ends [of s] parseSuggestion_oat_milk parseSuggestion_empty
  show ?thesis by blast
qed

theorem parseSuggestion_result_witness:
  "parseSuggestion '' Oat milk \<newline>\<newline>It has less sugar. \<newline> Really.''
     = (Some ''Oat milk'', ''It has less sugar.   Really.'')
   \<and> join [CHR 0x0A] (split_on (CHR 0x0A) '' Oat milk \<newline>\<newline>It has less sugar. \<newline> Really.'')
       = '' Oat milk \<newline>\<newline>It has less sugar. \<newline> Really.''
   \<and> \<not> isWhiteSpace (hd (trim '' Oat milk '')) \<and> \<not> isWhiteSpace (last (trim '' Oat milk ''))"
proof -
  have parsed: "parseSuggestion '' Oat milk \<newline>\<newline>It has less sugar. \<newline> Really.''
     = (Some ''Oat milk'', ''It has less sugar.   Really.'')"
    by code_simp
  have nonblank: "trim '' Oat milk '' \<noteq> []"
    by code_simp
  from parseSuggestion_result
         [of "'' Oat milk \<newline>\<newline>It has less sugar. \<newline> Really.''" "'' Oat milk ''"]
       parsed nonblank
  show ?thesis by blast
qed

theorem parseSuggestion_trims_counterexample:
  "parseSuggestion '' Oat milk\<newline>It has less sugar. ''
     = (Some ''Oat milk'', ''It has less sugar.'')
   \<and> parser_as_specified '' Oat milk\<newline>It has less sugar. ''
     = (Some '' Oat milk'', ''It has less sugar. '')
   \<and> parseSuggestion '' Oat milk\<newline>It has less sugar. ''
     \<noteq> parser_as_specified '' Oat milk\<newline>It has less sugar. ''"
proof -
  have code: "parseSuggestion '' Oat milk\<newline>It has less sugar. ''
     = (Some ''Oat milk'', ''It has less sugar.'')"
    by code_simp
  have spec: "parser_as_specified '' Oat milk\<newline>It has less sugar. ''
     = (Some '' Oat milk'', ''It has less sugar. '')"
    by code_simp
  from code spec show ?thesis by simp
qed

subsection \<open>A shown suggestion has a value\<close>

lemma parseSuggestion_truthy:
  assumes "filter (\<lambda>line. trim line \<noteq> []) (split_on (CHR 0x0A) content) \<noteq> []"
  shows "truthy (fst (parseSuggestion content))"
proof -
  obtain l rest
    where eq: "filter (\<lambda>line. trim line \<noteq> []) (split_on (CHR 0x0A) content) = l # rest"
    using assms by (cases "filter (\<lambda>line. trim line \<noteq> []) (split_on (CHR 0x0A) content)") auto
  then have "l \<in> set (filter (\<lambda>line. trim line \<noteq> []) (split_on (CHR 0x0A) content))"
    by simp
  then have "trim l \<noteq> []" by simp
  with eq show ?thesis by (simp add: parseSuggestion_cases truthy_def)
qed

lemma patch_keeps:
  assumes "list_all P xs" and "\<And>x. P x \<Longrightarrow> c x \<Longrightarrow> P (f x)"
  shows "list_all P (map (\<lambda>x. if c x then f x else x) xs)"
  using assms by (induction xs) auto

lemma shown_getItemImage: "shownInvariant st \<Longrightarrow> shownInvariant (getItemImage i n st)"
  by (auto simp: shownInvariant_def getItemImage_def shownHasSuggestion_def intro!: patch_keeps)

lemma shown_getItemImage_resolved:
  "shownInvariant st \<Longrightarrow> shownInvariant (getItemImage_resolved i r st)"
  by (auto simp: shownInvariant_def getItemImage_resolved_def shownHasSuggestion_def
      split: fetchResult.splits intro!: patch_keeps)

lemma shown_getHealthSuggestion:
  "shownInvariant st \<Longrightarrow> shownInvariant (getHealthSuggestion i n st)"
  by (auto simp: shownInvariant_def getHealthSuggestion_def shownHasSuggestion_def
      intro!: patch_keeps)

lemma shown_getHealthSuggestion_resolved:
  assumes "shownInvariant st" "\<not> settlesWithBlankLines (SuggestionSettled i n r)"
  shows "shownInvariant (getHealthSuggestion_resolved i r st)"
proof (cases r)
  case Thrown
  with assms show ?thesis
    by (auto simp: shownInvariant_def getHealthSuggestion_resolved_def shownHasSuggestion_def
        intro!: patch_keeps)
next
  case (Resolved v)
  show ?thesis
  proof (cases v)
    case None
    with Resolved assms show ?thesis by (simp add: getHealthSuggestion_resolved_def)
  next
    case (Some content)
    show ?thesis
    proof (cases "content = []")
      case True
      with Some Resolved assms show ?thesis by (simp add: getHealthSuggestion_resolved_def)
    next
      case False
      with assms(2) Resolved Some
      have "truthy (fst (parseSuggestion content))"
        by (intro parseSuggestion_truthy) simp
      with False Some Resolved assms(1) show ?thesis
        by (auto simp: shownInvariant_def getHealthSuggestion_resolved_def shownHasSuggestion_def
            split: prod.splits intro!: patch_keeps)
    qed
  qed
qed

lemma shown_inFlight_update: "shownInvariant (st\<lparr>inFlight := fl\<rparr>) = shownInvariant st"
  by (simp add: shownInvariant_def)

lemma shown_replaceFoodItem:
  assumes inv: "shownInvariant st"
  shows "shownInvariant (replaceFoodItem i st)"
proof -
  have "shownInvariant (st\<lparr>items := map (\<lambda>it. if id' it = i \<and> truthy (healthSuggestion it)
                                              then it\<lparr>name := newName,
                                                     healthSuggestion := None,
                                                     suggestionReason := None,
                                                     showingSuggestion := Some False,
                                                     imageUrl := None\<rparr>
                                              else it) (items st)\<rparr>)" for newName
    using inv by (auto simp: shownInvariant_def shownHasSuggestion_def intro!: patch_keeps)
  then show ?thesis using inv
    by (simp add: replaceFoodItem_def shown_getItemImage split: option.splits)
qed

lemma shown_addItem:
  assumes inv: "shownInvariant st"
  shows "shownInvariant (addItem now st)"
proof -
  have "shownInvariant (st\<lparr>items := items st @ [\<lparr>id' = a, name = b, isEditing = False,
                        healthSuggestion = None, suggestionReason = None,
                        showingSuggestion = None, isLoadingSuggestion = None,
                        imageUrl = None, isLoadingImage = None\<rparr>], inputText := []\<rparr>)" for a b
    using inv by (auto simp: shownInvariant_def shownHasSuggestion_def)
  then show ?thesis using inv
    by (simp add: addItem_def Let_def shown_getItemImage shown_getHealthSuggestion)
qed

lemma shown_step:
  assumes "shownInvariant st" "\<not> settlesWithBlankLines e" "step e st = Some st'"
  shows "shownInvariant st'"
proof (cases e)
  case (SuggestionSettled i n r)
  with assms show ?thesis
    by (auto simp: shown_inFlight_update split: if_splits
        intro!: shown_getHealthSuggestion_resolved)
next
  case (ImageSettled i n r)
  with assms show ?thesis
    by (auto simp: shown_inFlight_update split: if_splits intro!: shown_getItemImage_resolved)
next
  case (AddItem now)
  with assms show ?thesis by (auto intro: shown_addItem)
next
  case (ReplaceFoodItem i)
  with assms show ?thesis by (auto intro: shown_replaceFoodItem)
next
  case (KeysLoaded k)
  with assms show ?thesis
    by (auto simp: shownInvariant_def getApiKeys_resolved_def split: option.splits)
next
  case (SaveApiKeys a b)
  with assms show ?thesis
    by (auto simp: shownInvariant_def saveApiKeys_def Let_def)
next
  case (DeleteItem i)
  with assms show ?thesis by (auto simp: shownInvariant_def deleteItem_def)
next
  case DeleteCancel
  with assms show ?thesis
    by (auto simp: shownInvariant_def deleteItem_cancel_def split: if_splits)
next
  case DeleteConfirm
  with assms show ?thesis
    by (auto simp: shownInvariant_def deleteItem_onPress_def list_all_iff
        split: if_splits option.splits)
next
  case (StartEditing i)
  with assms show ?thesis
    by (auto simp: shownInvariant_def startEditing_def shownHasSuggestion_def list_all_iff)
next
  case (SaveEdit i)
  with assms show ?thesis
    by (auto simp: shownInvariant_def saveEdit_def shownHasSuggestion_def list_all_iff
        split: if_splits)
next
  case (DismissSuggestion i)
  with assms show ?thesis
    by (auto simp: shownInvariant_def dismissSuggestion_def shownHasSuggestion_def list_all_iff)
qed (use assms in \<open>auto simp: shownInvariant_def\<close>)

lemma shown_run:
  "shownInvariant st \<Longrightarrow> list_all (\<lambda>e. \<not> settlesWithBlankLines e) es
   \<Longrightarrow> run es st = Some st' \<Longrightarrow> shownInvariant st'"
proof (induction es arbitrary: st)
  case Nil
  then show ?case by simp
next
  case (Cons e es)
  then show ?case
    by (auto split: option.splits dest: shown_step)
qed

lemma shown_initial: "shownInvariant initialState"
  by (simp add: shownInvariant_def initialState_def)

lemma parseSuggestion_space: "parseSuggestion '' '' = (None, [])"
  by code_simp

lemma oat_milk_not_blank:
  "filter (\<lambda>line. trim line \<noteq> []) (split_on (CHR 0x0A) ''Oat milk\<newline>It has less sugar.'') \<noteq> []"
  by code_simp

text \<open>
  The run that the examples share: no key is stored, so the key form opens; the user saves
  a suggestion key, types "milk" and presses Add at clock reading 1700000000000.
\<close>

lemma run_add_milk:
  "run [KeysLoaded (Some (None, None)), ChangeApiKeyInput ''sk'', SaveApiKeys True True,
        ChangeInputText ''milk'',
        AddItem 1700000000000] initialState
   = Some \<lparr>items = [\<lparr>id' = ''1700000000000'', name = ''milk'', isEditing = False,
                      healthSuggestion = None, suggestionReason = None,
                      showingSuggestion = None, isLoadingSuggestion = Some True,
                      imageUrl = None, isLoadingImage = None\<rparr>],
           inputText = [], editText = [], apiKey = Some ''sk'', pexelsApiKey = None,
           isApiKeyModalVisible = False, apiKeyInput = ''sk'', pexelsApiKeyInput = [],
           apiKeyError = None,
           inFlight = [SuggestionRequest ''1700000000000'' ''milk''],
           errorAlerts = 0, deleteAlert = None\<rparr>"
  by (simp add: initialState_def getApiKeys_resolved_def saveApiKeys_def addItem_def
      getHealthSuggestion_def getItemImage_def truthy_def trim_sk trim_milk toString_example
      Let_def)

lemma run_milk_suggested:
  "run [KeysLoaded (Some (None, None)), ChangeApiKeyInput ''sk'', SaveApiKeys True True,
        ChangeInputText ''milk'',
        AddItem 1700000000000,
        SuggestionSettled ''1700000000000'' ''milk''
          (Resolved (Some ''Oat milk\<newline>It has less sugar.''))] initialState
   = Some \<lparr>items = [\<lparr>id' = ''1700000000000'', name = ''milk'', isEditing = False,
                      healthSuggestion = Some ''Oat milk'',
                      suggestionReason = Some ''It has less sugar.'',
                      showingSuggestion = Some True, isLoadingSuggestion = Some False,
                      imageUrl = None, isLoadingImage = None\<rparr>],
           inputText = [], editText = [], apiKey = Some ''sk'', pexelsApiKey = None,
           isApiKeyModalVisible = False, apiKeyInput = ''sk'', pexelsApiKeyInput = [],
           apiKeyError = None, inFlight = [], errorAlerts = 0, deleteAlert = None\<rparr>"
proof -
  have "run ([KeysLoaded (Some (None, None)), ChangeApiKeyInput ''sk'', SaveApiKeys True True,
        ChangeInputText ''milk'',
        AddItem 1700000000000] @
        [SuggestionSettled ''1700000000000'' ''milk''
          (Resolved (Some ''Oat milk\<newline>It has less sugar.''))]) initialState
   = Some \<lparr>items = [\<lparr>id' = ''1700000000000'', name = ''milk'', isEditing = False,
                      healthSuggestion = Some ''Oat milk'',
                      suggestionReason = Some ''It has less sugar.'',
                      showingSuggestion = Some True, isLoadingSuggestion = Some False,
                      imageUrl = None, isLoadingImage = None\<rparr>],
           inputText = [], editText = [], apiKey = Some ''sk'', pexelsApiKey = None,
           isApiKeyModalVisible = False, apiKeyInput = ''sk'', pexelsApiKeyInput = [],
           apiKeyError = None, inFlight = [], errorAlerts = 0, deleteAlert = None\<rparr>"
    unfolding run_append run_add_milk
    by (simp add: getHealthSuggestion_resolved_def parseSuggestion_oat_milk_reason)
  then show ?thesis by (simp only: append.simps)
qed

text \<open>
  C5, amended. Take a run from the initial state in which no suggestion request settles
  with a content that is not empty and has blank lines only. In the state it reaches, every
  item whose \<^verbatim>\<open>showingSuggestion\<close> is true has a \<^verbatim>\<open>healthSuggestion\<close> that is defined and
  not empty. Every event other than such a settling preserves this, the settling of a
  suggestion request with any other content included.
\<close>

theorem shown_suggestion_present:
  "(run es initialState = Some st \<and> list_all (\<lambda>e. \<not> settlesWithBlankLines e) es
      \<longrightarrow> list_all shownHasSuggestion (items st))
   \<and> (shownInvariant s \<and> \<not> settlesWithBlankLines e \<and> step e s = Some s'
      \<longrightarrow> shownInvariant s')"
  using shown_run [OF shown_initial, of es st] shown_step [of s e s']
  by (auto simp: shownInvariant_def)

theorem shown_suggestion_present_witness:
  "run [KeysLoaded (Some (None, None)), ChangeApiKeyInput ''sk'', SaveApiKeys True True,
        ChangeInputText ''milk'', AddItem 1700000000000,
        SuggestionSettled ''1700000000000'' ''milk''
          (Resolved (Some ''Oat milk\<newline>It has less sugar.''))] initialState
   = Some \<lparr>items = [\<lparr>id' = ''1700000000000'', name = ''milk'', isEditing = False,
                      healthSuggestion = Some ''Oat milk'',
                      suggestionReason = Some ''It has less sugar.'',
                      showingSuggestion = Some True, isLoadingSuggestion = Some False,
                      imageUrl = None, isLoadingImage = None\<rparr>],
           inputText = [], editText = [], apiKey = Some ''sk'', pexelsApiKey = None,
           isApiKeyModalVisible = False, apiKeyInput = ''sk'', pexelsApiKeyInput = [],
           apiKeyError = None, inFlight = [],
           errorAlerts = 0, deleteAlert = None\<rparr>
   \<and> list_all (\<lambda>e. \<not> settlesWithBlankLines e)
       [KeysLoaded (Some (None, None)), ChangeApiKeyInput ''sk'', SaveApiKeys True True,
        ChangeInputText ''milk'', AddItem 1700000000000,
        SuggestionSettled ''1700000000000'' ''milk''
          (Resolved (Some ''Oat milk\<newline>It has less sugar.''))]
   \<and> list_all shownHasSuggestion
       [\<lparr>id' = ''1700000000000'', name = ''milk'', isEditing = False,
                      healthSuggestion = Some ''Oat milk'',
                      suggestionReason = Some ''It has less sugar.'',
                      showingSuggestion = Some True, isLoadingSuggestion = Some False,
                      imageUrl = None, isLoadingImage = None\<rparr>]
   \<and> shownInvariant
       \<lparr>items = [\<lparr>id' = ''1700000000000'', name = ''milk'', isEditing = False,
                      healthSuggestion = None, suggestionReason = None,
                      showingSuggestion = None, isLoadingSuggestion = Some True,
                      imageUrl = None, isLoadingImage = None\<rparr>],
           inputText = [], editText = [], apiKey = Some ''sk'', pexelsApiKey = None,
           isApiKeyModalVisible = False, apiKeyInput = ''sk'', pexelsApiKeyInput = [],
           apiKeyError = None, inFlight = [SuggestionRequest ''1700000000000'' ''milk''],
           errorAlerts = 0, deleteAlert = None\<rparr>
   \<and> \<not> settlesWithBlankLines
         (SuggestionSettled ''1700000000000'' ''milk''
              (Resolved (Some ''Oat milk\<newline>It has less sugar.'')))
   \<and> step (SuggestionSettled ''1700000000000'' ''milk''
              (Resolved (Some ''Oat milk\<newline>It has less sugar.'')))
       \<lparr>items = [\<lparr>id' = ''1700000000000'', name = ''milk'', isEditing = False,
                      healthSuggestion = None, suggestionReason = None,
                      showingSuggestion = None, isLoadingSuggestion = Some True,
                      imageUrl = None, isLoadingImage = None\<rparr>],
           inputText = [], editText = [], apiKey = Some ''sk'', pexelsApiKey = None,
           isApiKeyModalVisible = False, apiKeyInput = ''sk'', pexelsApiKeyInput = [],
           apiKeyError = None, inFlight = [SuggestionRequest ''1700000000000'' ''milk''],
           errorAlerts = 0, deleteAlert = None\<rparr>
     = Some \<lparr>items = [\<lparr>id' = ''1700000000000'', name = ''milk'', isEditing = False,
                      healthSuggestion = Some ''Oat milk'',
                      suggestionReason = Some ''It has less sugar.'',
                      showingSuggestion = Some True, isLoadingSuggestion = Some False,
                      imageUrl = None, isLoadingImage = None\<rparr>],
           inputText = [], editText = [], apiKey = Some ''sk'', pexelsApiKey = None,
           isApiKeyModalVisible = False, apiKeyInput = ''sk'', pexelsApiKeyInput = [],
           apiKeyError = None, inFlight = [],
           errorAlerts = 0, deleteAlert = None\<rparr>
   \<and> shownInvariant
       \<lparr>items = [\<lparr>id' = ''1700000000000'', name = ''milk'', isEditing = False,
                      healthSuggestion = Some ''Oat milk'',
                      suggestionReason = Some ''It has less sugar.'',
                      showingSuggestion = Some True, isLoadingSuggestion = Some False,
                      imageUrl = None, isLoadingImage = None\<rparr>],
           inputText = [], editText = [], apiKey = Some ''sk'', pexelsApiKey = None,
           isApiKeyModalVisible = False, apiKeyInput = ''sk'', pexelsApiKeyInput = [],
           apiKeyError = None, inFlight = [],
           errorAlerts = 0, deleteAlert = None\<rparr>"
proof -
  have benign: "list_all (\<lambda>e. \<not> settlesWithBlankLines e)
       [KeysLoaded (Some (None, None)), ChangeApiKeyInput ''sk'', SaveApiKeys True True,
        ChangeInputText ''milk'', AddItem 1700000000000,
        SuggestionSettled ''1700000000000'' ''milk''
          (Resolved (Some ''Oat milk\<newline>It has less sugar.''))]"
    using oat_milk_not_blank by simp
  note reachable = shown_suggestion_present [THEN conjunct1, rule_format]
  have "list_all shownHasSuggestion (items
          \<lparr>items = [\<lparr>id' = ''1700000000000'', name = ''milk'', isEditing = False,
                      healthSuggestion = Some ''Oat milk'',
                      suggestionReason = Some ''It has less sugar.'',
                      showingSuggestion = Some True, isLoadingSuggestion = Some False,
                      imageUrl = None, isLoadingImage = None\<rparr>],
           inputText = [], editText = [], apiKey = Some ''sk'', pexelsApiKey = None,
           isApiKeyModalVisible = False, apiKeyInput = ''sk'', pexelsApiKeyInput = [],
           apiKeyError = None, inFlight = [],
           errorAlerts = 0, deleteAlert = None\<rparr>)"
    by (rule reachable [OF conjI [OF run_milk_suggested benign]])
  then have shown: "list_all shownHasSuggestion
       [\<lparr>id' = ''1700000000000'', name = ''milk'', isEditing = False,
                      healthSuggestion = Some ''Oat milk'',
                      suggestionReason = Some ''It has less sugar.'',
                      showingSuggestion = Some True, isLoadingSuggestion = Some False,
                      imageUrl = None, isLoadingImage = None\<rparr>]"
    by simp
  have before: "shownInvariant
       \<lparr>items = [\<lparr>id' = ''1700000000000'', name = ''milk'', isEditing = False,
                      healthSuggestion = None, suggestionReason = None,
                      showingSuggestion = None, isLoadingSuggestion = Some True,
                      imageUrl = None, isLoadingImage = None\<rparr>],
           inputText = [], editText = [], apiKey = Some ''sk'', pexelsApiKey = None,
           isApiKeyModalVisible = False, apiKeyInput = ''sk'', pexelsApiKeyInput = [],
           apiKeyError = None, inFlight = [SuggestionRequest ''1700000000000'' ''milk''],
           errorAlerts = 0, deleteAlert = None\<rparr>"
    by (simp add: shownInvariant_def shownHasSuggestion_def)
  have event: "\<not> settlesWithBlankLines
         (SuggestionSettled ''1700000000000'' ''milk''
              (Resolved (Some ''Oat milk\<newline>It has less sugar.'')))"
    using oat_milk_not_blank by simp
  have stepped: "step (SuggestionSettled ''1700000000000'' ''milk''
              (Resolved (Some ''Oat milk\<newline>It has less sugar.'')))
       \<lparr>items = [\<lparr>id' = ''1700000000000'', name = ''milk'', isEditing = False,
                      healthSuggestion = None, suggestionReason = None,
                      showingSuggestion = None, isLoadingSuggestion = Some True,
                      imageUrl = None, isLoadingImage = None\<rparr>],
           inputText = [], editText = [], apiKey = Some ''sk'', pexelsApiKey = None,
           isApiKeyModalVisible = False, apiKeyInput = ''sk'', pexelsApiKeyInput = [],
           apiKeyError = None, inFlight = [SuggestionRequest ''1700000000000'' ''milk''],
           errorAlerts = 0, deleteAlert = None\<rparr>
     = Some \<lparr>items = [\<lparr>id' = ''1700000000000'', name = ''milk'', isEditing = False,
                      healthSuggestion = Some ''Oat milk'',
                      suggestionReason = Some ''It has less sugar.'',
                      showingSuggestion = Some True, isLoadingSuggestion = Some False,
                      imageUrl = None, isLoadingImage = None\<rparr>],
           inputText = [], editText = [], apiKey = Some ''sk'', pexelsApiKey = None,
           isApiKeyModalVisible = False, apiKeyInput = ''sk'', pexelsApiKeyInput = [],
           apiKeyError = None, inFlight = [],
           errorAlerts = 0, deleteAlert = None\<rparr>"
    by (simp add: getHealthSuggestion_resolved_def parseSuggestion_oat_milk_reason)
  note preserved = shown_suggestion_present [THEN conjunct2, rule_format]
  have after: "shownInvariant
       \<lparr>items = [\<lparr>id' = ''1700000000000'', name = ''milk'', isEditing = False,
                      healthSuggestion = Some ''Oat milk'',
                      suggestionReason = Some ''It has less sugar.'',
                      showingSuggestion = Some True, isLoadingSuggestion = Some False,
                      imageUrl = None, isLoadingImage = None\<rparr>],
           inputText = [], editText = [], apiKey = Some ''sk'', pexelsApiKey = None,
           isApiKeyModalVisible = False, apiKeyInput = ''sk'', pexelsApiKeyInput = [],
           apiKeyError = None, inFlight = [],
           errorAlerts = 0, deleteAlert = None\<rparr>"
    by (rule preserved [OF conjI [OF before conjI [OF event stepped]]])
  show ?thesis
    by (intro conjI)
      (rule run_milk_suggested, rule benign, rule shown, rule before, rule event,
       rule stepped, rule after)
qed

theorem shown_without_suggestion_counterexample:
  "run [KeysLoaded (Some (None, None)), ChangeApiKeyInput ''sk'', SaveApiKeys True True,
        ChangeInputText ''milk'',
        AddItem 1700000000000,
        SuggestionSettled ''1700000000000'' ''milk'' (Resolved (Some '' ''))] initialState
   = Some \<lparr>items = [\<lparr>id' = ''1700000000000'', name = ''milk'', isEditing = False,
                      healthSuggestion = None, suggestionReason = Some [],
                      showingSuggestion = Some True, isLoadingSuggestion = Some False,
                      imageUrl = None, isLoadingImage = None\<rparr>],
           inputText = [], editText = [], apiKey = Some ''sk'', pexelsApiKey = None,
           isApiKeyModalVisible = False, apiKeyInput = ''sk'', pexelsApiKeyInput = [],
           apiKeyError = None, inFlight = [], errorAlerts = 0, deleteAlert = None\<rparr>
   \<and> \<not> shownHasSuggestion
         \<lparr>id' = ''1700000000000'', name = ''milk'', isEditing = False,
          healthSuggestion = None, suggestionReason = Some [],
          showingSuggestion = Some True, isLoadingSuggestion = Some False,
          imageUrl = None, isLoadingImage = None\<rparr>"
proof -
  have "run ([KeysLoaded (Some (None, None)), ChangeApiKeyInput ''sk'', SaveApiKeys True True,
        ChangeInputText ''milk'',
        AddItem 1700000000000] @
        [SuggestionSettled ''1700000000000'' ''milk'' (Resolved (Some '' ''))]) initialState
   = Some \<lparr>items = [\<lparr>id' = ''1700000000000'', name = ''milk'', isEditing = False,
                      healthSuggestion = None, suggestionReason = Some [],
                      showingSuggestion = Some True, isLoadingSuggestion = Some False,
                      imageUrl = None, isLoadingImage = None\<rparr>],
           inputText = [], editText = [], apiKey = Some ''sk'', pexelsApiKey = None,
           isApiKeyModalVisible = False, apiKeyInput = ''sk'', pexelsApiKeyInput = [],
           apiKeyError = None, inFlight = [], errorAlerts = 0, deleteAlert = None\<rparr>"
    unfolding run_append run_add_milk
    by (simp add: getHealthSuggestion_resolved_def parseSuggestion_space)
  then show ?thesis
    by (simp add: shownHasSuggestion_def truthy_def)
qed

subsection \<open>Accepting a suggestion\<close>

text \<open>
  C4, amended. In a collection with pairwise distinct ids, for the item at any position
  whose \<^verbatim>\<open>healthSuggestion\<close> is present (defined and not empty), \<open>replaceFoodItem\<close> with its
  id sets the name to the suggestion, clears the suggestion and its reason, sets
  \<^verbatim>\<open>showingSuggestion\<close> to false and clears the image; every other item stays. When an
  image key is configured it then marks the item as loading its image and sends exactly
  one image request, for the id and the new name; when none is configured it sends no
  request and leaves \<^verbatim>\<open>isLoadingImage\<close> as it was. For an item without a present
  suggestion, and for an id that no item has, \<open>replaceFoodItem\<close> changes nothing.
\<close>

theorem replaceFoodItem_effect:
  assumes d: "distinct (map id' (items st))" and k: "k < length (items st)"
  shows "(healthSuggestion (items st ! k) = Some alternative \<and> alternative \<noteq> [] \<longrightarrow>
           replaceFoodItem (id' (items st ! k)) st =
             (if truthy (pexelsApiKey st)
              then st\<lparr>items := (items st)
                        [k := (items st ! k)\<lparr>name := alternative, healthSuggestion := None,
                                suggestionReason := None, showingSuggestion := Some False,
                                imageUrl := None, isLoadingImage := Some True\<rparr>],
                      inFlight := inFlight st @ [ImageRequest (id' (items st ! k)) alternative]\<rparr>
              else st\<lparr>items := (items st)
                        [k := (items st ! k)\<lparr>name := alternative, healthSuggestion := None,
                                suggestionReason := None, showingSuggestion := Some False,
                                imageUrl := None\<rparr>]\<rparr>))
       \<and> (\<not> truthy (healthSuggestion (items st ! k)) \<longrightarrow>
           replaceFoodItem (id' (items st ! k)) st = st)
       \<and> (absentId \<notin> id' ` set (items st) \<longrightarrow> replaceFoodItem absentId st = st)"
proof (intro conjI impI)
  assume "\<not> truthy (healthSuggestion (items st ! k))"
  then show "replaceFoodItem (id' (items st ! k)) st = st"
    by (simp add: replaceFoodItem_def find_distinct_id [OF d k] truthy_def split: option.splits)
next
  assume "absentId \<notin> id' ` set (items st)"
  then show "replaceFoodItem absentId st = st"
    by (simp add: replaceFoodItem_def find_absent)
next
  assume a: "healthSuggestion (items st ! k) = Some alternative \<and> alternative \<noteq> []"
  let ?f = "\<lambda>i. i\<lparr>name := alternative, healthSuggestion := None,
                                suggestionReason := None, showingSuggestion := Some False,
                                imageUrl := None\<rparr>"
  have t: "truthy (healthSuggestion (items st ! k))" using a by (simp add: truthy_def)
  have m: "map (\<lambda>i. if id' i = id' (items st ! k) \<and> truthy (healthSuggestion i) then ?f i else i)
             (items st)
      = (items st)[k := ?f (items st ! k)]"
    using patch_distinct_id [OF d k, of "\<lambda>i. truthy (healthSuggestion i)" ?f] t by simp
  have d': "distinct (map id' ((items st)[k := ?f (items st ! k)]))"
    using d k by (simp add: map_update) (metis list_update_id map_update nth_map length_map)
  have mark: "map (\<lambda>item. if id' item = id' (items st ! k)
                          then item\<lparr>isLoadingImage := Some True\<rparr> else item)
          ((items st)[k := ?f (items st ! k)])
        = (items st)[k := (?f (items st ! k))\<lparr>isLoadingImage := Some True\<rparr>]"
    using patch_distinct_id [OF d', of k "\<lambda>i. True" "\<lambda>item. item\<lparr>isLoadingImage := Some True\<rparr>"] k
    by simp
  show "replaceFoodItem (id' (items st ! k)) st =
             (if truthy (pexelsApiKey st)
              then st\<lparr>items := (items st)
                        [k := (items st ! k)\<lparr>name := alternative, healthSuggestion := None,
                                suggestionReason := None, showingSuggestion := Some False,
                                imageUrl := None, isLoadingImage := Some True\<rparr>],
                      inFlight := inFlight st @ [ImageRequest (id' (items st ! k)) alternative]\<rparr>
              else st\<lparr>items := (items st)
                        [k := (items st ! k)\<lparr>name := alternative, healthSuggestion := None,
                                suggestionReason := None, showingSuggestion := Some False,
                                imageUrl := None\<rparr>]\<rparr>)"
    using a by (simp add: replaceFoodItem_def find_distinct_id [OF d k] m getItemImage_def mark)
qed

theorem replaceFoodItem_effect_witness:
  "distinct (map id' (items
      \<lparr>items = [\<lparr>id' = ''1700000000000'', name = ''milk'', isEditing = False,
                 healthSuggestion = Some ''Oat milk'',
                 suggestionReason = Some ''It has less sugar.'',
                 showingSuggestion = Some True, isLoadingSuggestion = Some False,
                 imageUrl = Some ''https://img/1'', isLoadingImage = Some False\<rparr>,
                \<lparr>id' = ''1700000000500'', name = ''eggs'', isEditing = False,
                 healthSuggestion = None, suggestionReason = None,
                 showingSuggestion = None, isLoadingSuggestion = Some True,
                 imageUrl = None, isLoadingImage = Some True\<rparr>],
       inputText = [], editText = [], apiKey = Some ''sk'', pexelsApiKey = Some ''pk'',
       isApiKeyModalVisible = False, apiKeyInput = ''sk'', pexelsApiKeyInput = ''pk'',
       apiKeyError = None,
       inFlight = [SuggestionRequest ''1700000000500'' ''eggs'', ImageRequest ''1700000000500'' ''eggs''],
       errorAlerts = 0, deleteAlert = None\<rparr>))
   \<and> replaceFoodItem ''1700000000000''
      \<lparr>items = [\<lparr>id' = ''1700000000000'', name = ''milk'', isEditing = False,
                 healthSuggestion = Some ''Oat milk'',
                 suggestionReason = Some ''It has less sugar.'',
                 showingSuggestion = Some True, isLoadingSuggestion = Some False,
                 imageUrl = Some ''https://img/1'', isLoadingImage = Some False\<rparr>,
                \<lparr>id' = ''1700000000500'', name = ''eggs'', isEditing = False,
                 healthSuggestion = None, suggestionReason = None,
                 showingSuggestion = None, isLoadingSuggestion = Some True,
                 imageUrl = None, isLoadingImage = Some True\<rparr>],
       inputText = [], editText = [], apiKey = Some ''sk'', pexelsApiKey = Some ''pk'',
       isApiKeyModalVisible = False, apiKeyInput = ''sk'', pexelsApiKeyInput = ''pk'',
       apiKeyError = None,
       inFlight = [SuggestionRequest ''1700000000500'' ''eggs'', ImageRequest ''1700000000500'' ''eggs''],
       errorAlerts = 0, deleteAlert = None\<rparr>
     = \<lparr>items = [\<lparr>id' = ''1700000000000'', name = ''Oat milk'', isEditing = False,
                 healthSuggestion = None, suggestionReason = None,
                 showingSuggestion = Some False, isLoadingSuggestion = Some False,
                 imageUrl = None, isLoadingImage = Some True\<rparr>,
                \<lparr>id' = ''1700000000500'', name = ''eggs'', isEditing = False,
                 healthSuggestion = None, suggestionReason = None,
                 showingSuggestion = None, isLoadingSuggestion = Some True,
                 imageUrl = None, isLoadingImage = Some True\<rparr>],
       inputText = [], editText = [], apiKey = Some ''sk'', pexelsApiKey = Some ''pk'',
       isApiKeyModalVisible = False, apiKeyInput = ''sk'', pexelsApiKeyInput = ''pk'',
       apiKeyError = None,
       inFlight = [SuggestionRequest ''1700000000500'' ''eggs'', ImageRequest ''1700000000500'' ''eggs'',
                   ImageRequest ''1700000000000'' ''Oat milk''],
       errorAlerts = 0, deleteAlert = None\<rparr>
   \<and> replaceFoodItem ''1700000000500''
      \<lparr>items = [\<lparr>id' = ''1700000000000'', name = ''milk'', isEditing = False,
                 healthSuggestion = Some ''Oat milk'',
                 suggestionReason = Some ''It has less sugar.'',
                 showingSuggestion = Some True, isLoadingSuggestion = Some False,
                 imageUrl = Some ''https://img/1'', isLoadingImage = Some False\<rparr>,
                \<lparr>id' = ''1700000000500'', name = ''eggs'', isEditing = False,
                 healthSuggestion = None, suggestionReason = None,
                 showingSuggestion = None, isLoadingSuggestion = Some True,
                 imageUrl = None, isLoadingImage = Some True\<rparr>],
       inputText = [], editText = [], apiKey = Some ''sk'', pexelsApiKey = Some ''pk'',
       isApiKeyModalVisible = False, apiKeyInput = ''sk'', pexelsApiKeyInput = ''pk'',
       apiKeyError = None,
       inFlight = [SuggestionRequest ''1700000000500'' ''eggs'', ImageRequest ''1700000000500'' ''eggs''],
       errorAlerts = 0, deleteAlert = None\<rparr>
     = \<lparr>items = [\<lparr>id' = ''1700000000000'', name = ''milk'', isEditing = False,
                 healthSuggestion = Some ''Oat milk'',
                 suggestionReason = Some ''It has less sugar.'',
                 showingSuggestion = Some True, isLoadingSuggestion = Some False,
                 imageUrl = Some ''https://img/1'', isLoadingImage = Some False\<rparr>,
                \<lparr>id' = ''1700000000500'', name = ''eggs'', isEditing = False,
                 healthSuggestion = None, suggestionReason = None,
                 showingSuggestion = None, isLoadingSuggestion = Some True,
                 imageUrl = None, isLoadingImage = Some True\<rparr>],
       inputText = [], editText = [], apiKey = Some ''sk'', pexelsApiKey = Some ''pk'',
       isApiKeyModalVisible = False, apiKeyInput = ''sk'', pexelsApiKeyInput = ''pk'',
       apiKeyError = None,
       inFlight = [SuggestionRequest ''1700000000500'' ''eggs'', ImageRequest ''1700000000500'' ''eggs''],
       errorAlerts = 0, deleteAlert = None\<rparr>
   \<and> replaceFoodItem ''42''
      \<lparr>items = [\<lparr>id' = ''1700000000000'', name = ''milk'', isEditing = False,
                 healthSuggestion = Some ''Oat milk'',
                 suggestionReason = Some ''It has less sugar.'',
                 showingSuggestion = Some True, isLoadingSuggestion = Some False,
                 imageUrl = Some ''https://img/1'', isLoadingImage = Some False\<rparr>,
                \<lparr>id' = ''1700000000500'', name = ''eggs'', isEditing = False,
                 healthSuggestion = None, suggestionReason = None,
                 showingSuggestion = None, isLoadingSuggestion = Some True,
                 imageUrl = None, isLoadingImage = Some True\<rparr>],
       inputText = [], editText = [], apiKey = Some ''sk'', pexelsApiKey = Some ''pk'',
       isApiKeyModalVisible = False, apiKeyInput = ''sk'', pexelsApiKeyInput = ''pk'',
       apiKeyError = None,
       inFlight = [SuggestionRequest ''1700000000500'' ''eggs'', ImageRequest ''1700000000500'' ''eggs''],
       errorAlerts = 0, deleteAlert = None\<rparr>
     = \<lparr>items = [\<lparr>id' = ''1700000000000'', name = ''milk'', isEditing = False,
                 healthSuggestion = Some ''Oat milk'',
                 suggestionReason = Some ''It has less sugar.'',
                 showingSuggestion = Some True, isLoadingSuggestion = Some False,
                 imageUrl = Some ''https://img/1'', isLoadingImage = Some False\<rparr>,
                \<lparr>id' = ''1700000000500'', name = ''eggs'', isEditing = False,
                 healthSuggestion = None, suggestionReason = None,
                 showingSuggestion = None, isLoadingSuggestion = Some True,
                 imageUrl = None, isLoadingImage = Some True\<rparr>],
       inputText = [], editText = [], apiKey = Some ''sk'', pexelsApiKey = Some ''pk'',
       isApiKeyModalVisible = False, apiKeyInput = ''sk'', pexelsApiKeyInput = ''pk'',
       apiKeyError = None,
       inFlight = [SuggestionRequest ''1700000000500'' ''eggs'', ImageRequest ''1700000000500'' ''eggs''],
       errorAlerts = 0, deleteAlert = None\<rparr>"
proof -
  let ?st = "\<lparr>items = [\<lparr>id' = ''1700000000000'', name = ''milk'', isEditing = False,
                 healthSuggestion = Some ''Oat milk'',
                 suggestionReason = Some ''It has less sugar.'',
                 showingSuggestion = Some True, isLoadingSuggestion = Some False,
                 imageUrl = Some ''https://img/1'', isLoadingImage = Some False\<rparr>,
                \<lparr>id' = ''1700000000500'', name = ''eggs'', isEditing = False,
                 healthSuggestion = None, suggestionReason = None,
                 showingSuggestion = None, isLoadingSuggestion = Some True,
                 imageUrl = None, isLoadingImage = Some True\<rparr>],
       inputText = [], editText = [], apiKey = Some ''sk'', pexelsApiKey = Some ''pk'',
       isApiKeyModalVisible = False, apiKeyInput = ''sk'', pexelsApiKeyInput = ''pk'',
       apiKeyError = None,
       inFlight = [SuggestionRequest ''1700000000500'' ''eggs'', ImageRequest ''1700000000500'' ''eggs''],
       errorAlerts = 0, deleteAlert = None\<rparr>"
  have d: "distinct (map id' (items ?st))" by simp
  have k0: "0 < length (items ?st)" and k1: "1 < length (items ?st)" by simp_all
  have absent: "''42'' \<notin> id' ` set (items ?st)" by simp
  note accepted = replaceFoodItem_effect [OF d k0, THEN conjunct1, rule_format]
  note untouched = replaceFoodItem_effect [OF d k1, THEN conjunct2, THEN conjunct1, rule_format]
  note unknown = replaceFoodItem_effect [OF d k0, THEN conjunct2, THEN conjunct2, rule_format,
      OF absent]
  have a: "replaceFoodItem ''1700000000000'' ?st
     = \<lparr>items = [\<lparr>id' = ''1700000000000'', name = ''Oat milk'', isEditing = False,
                 healthSuggestion = None, suggestionReason = None,
                 showingSuggestion = Some False, isLoadingSuggestion = Some False,
                 imageUrl = None, isLoadingImage = Some True\<rparr>,
                \<lparr>id' = ''1700000000500'', name = ''eggs'', isEditing = False,
                 healthSuggestion = None, suggestionReason = None,
                 showingSuggestion = None, isLoadingSuggestion = Some True,
                 imageUrl = None, isLoadingImage = Some True\<rparr>],
       inputText = [], editText = [], apiKey = Some ''sk'', pexelsApiKey = Some ''pk'',
       isApiKeyModalVisible = False, apiKeyInput = ''sk'', pexelsApiKeyInput = ''pk'',
       apiKeyError = None,
       inFlight = [SuggestionRequest ''1700000000500'' ''eggs'', ImageRequest ''1700000000500'' ''eggs'',
                   ImageRequest ''1700000000000'' ''Oat milk''],
       errorAlerts = 0, deleteAlert = None\<rparr>"
    using accepted [of "''Oat milk''"] by (simp add: truthy_def)
  have u: "replaceFoodItem ''1700000000500'' ?st = ?st"
    using untouched by (simp add: truthy_def)
  from d a u unknown show ?thesis by (simp only: simp_thms)
qed

theorem replaceFoodItem_no_image_key_counterexample:
  "run [KeysLoaded (Some (None, None)), ChangeApiKeyInput ''sk'', SaveApiKeys True True,
        ChangeInputText ''milk'',
        AddItem 1700000000000,
        SuggestionSettled ''1700000000000'' ''milk''
          (Resolved (Some ''Oat milk\<newline>It has less sugar.'')),
        ReplaceFoodItem ''1700000000000''] initialState
   = Some \<lparr>items = [\<lparr>id' = ''1700000000000'', name = ''Oat milk'', isEditing = False,
                      healthSuggestion = None, suggestionReason = None,
                      showingSuggestion = Some False, isLoadingSuggestion = Some False,
                      imageUrl = None, isLoadingImage = None\<rparr>],
           inputText = [], editText = [], apiKey = Some ''sk'', pexelsApiKey = None,
           isApiKeyModalVisible = False, apiKeyInput = ''sk'', pexelsApiKeyInput = [],
           apiKeyError = None, inFlight = [], errorAlerts = 0, deleteAlert = None\<rparr>"
proof -
  have "run ([KeysLoaded (Some (None, None)), ChangeApiKeyInput ''sk'', SaveApiKeys True True,
        ChangeInputText ''milk'',
        AddItem 1700000000000,
        SuggestionSettled ''1700000000000'' ''milk''
          (Resolved (Some ''Oat milk\<newline>It has less sugar.''))] @
        [ReplaceFoodItem ''1700000000000'']) initialState
   = Some \<lparr>items = [\<lparr>id' = ''1700000000000'', name = ''Oat milk'', isEditing = False,
                      healthSuggestion = None, suggestionReason = None,
                      showingSuggestion = Some False, isLoadingSuggestion = Some False,
                      imageUrl = None, isLoadingImage = None\<rparr>],
           inputText = [], editText = [], apiKey = Some ''sk'', pexelsApiKey = None,
           isApiKeyModalVisible = False, apiKeyInput = ''sk'', pexelsApiKeyInput = [],
           apiKeyError = None, inFlight = [], errorAlerts = 0, deleteAlert = None\<rparr>"
    unfolding run_append run_milk_suggested
    by (simp add: replaceFoodItem_def getItemImage_def truthy_def)
  then show ?thesis by (simp only: append.simps)
qed

subsection \<open>Missing keys\<close>

text \<open>
  C7, amended. With no suggestion key, \<open>getHealthSuggestion\<close> shows the key form and does
  nothing else: it sends no suggestion request and sets no \<^verbatim>\<open>isLoadingSuggestion\<close>. With
  no image key, \<open>getItemImage\<close> changes nothing at all: no request, no
  \<^verbatim>\<open>isLoadingImage\<close>, no key form. The two are independent: an \<open>addItem\<close> without a
  suggestion key shows the key form and still sends the image request when an image key is
  configured, and sends no request when none is.
\<close>

theorem missing_keys:
  "(\<not> truthy (apiKey st) \<longrightarrow>
      getHealthSuggestion itemId itemName st = st\<lparr>isApiKeyModalVisible := True\<rparr>)
   \<and> (\<not> truthy (pexelsApiKey st) \<longrightarrow> getItemImage itemId itemName st = st)
   \<and> (\<not> truthy (apiKey st) \<and> trim (inputText st) \<noteq> [] \<longrightarrow>
        isApiKeyModalVisible (addItem now st)
        \<and> inFlight (addItem now st) =
            (if truthy (pexelsApiKey st)
             then inFlight st @ [ImageRequest (toString now) (trim (inputText st))]
             else inFlight st))"
  by (simp add: getHealthSuggestion_def getItemImage_def addItem_def Let_def)

theorem missing_keys_witness:
  "\<not> truthy (apiKey (initialState\<lparr>inputText := ''milk''\<rparr>))
   \<and> \<not> truthy (pexelsApiKey (initialState\<lparr>inputText := ''milk''\<rparr>))
   \<and> trim (inputText (initialState\<lparr>inputText := ''milk''\<rparr>)) \<noteq> []
   \<and> getHealthSuggestion ''1700000000000'' ''milk'' (initialState\<lparr>inputText := ''milk''\<rparr>)
       = initialState\<lparr>inputText := ''milk'', isApiKeyModalVisible := True\<rparr>
   \<and> getItemImage ''1700000000000'' ''milk'' (initialState\<lparr>inputText := ''milk''\<rparr>)
       = initialState\<lparr>inputText := ''milk''\<rparr>
   \<and> isApiKeyModalVisible (addItem 1700000000000 (initialState\<lparr>inputText := ''milk''\<rparr>))
   \<and> inFlight (addItem 1700000000000 (initialState\<lparr>inputText := ''milk''\<rparr>)) = []"
proof -
  have no_key: "\<not> truthy (apiKey (initialState\<lparr>inputText := ''milk''\<rparr>))"
    by (simp add: initialState_def truthy_def)
  have no_image_key: "\<not> truthy (pexelsApiKey (initialState\<lparr>inputText := ''milk''\<rparr>))"
    by (simp add: initialState_def truthy_def)
  have typed: "trim (inputText (initialState\<lparr>inputText := ''milk''\<rparr>)) \<noteq> []"
    by (simp add: trim_milk)
  have nothing: "inFlight (initialState\<lparr>inputText := ''milk''\<rparr>) = []"
    by (simp add: initialState_def)
  from missing_keys [of "initialState\<lparr>inputText := ''milk''\<rparr>" "''1700000000000''" "''milk''"
         1700000000000]
       no_key no_image_key typed nothing
  show ?thesis by (simp add: initialState_def)
qed

theorem image_sent_without_suggestion_key_counterexample:
  "run [KeysLoaded (Some (None, None)), ChangePexelsApiKeyInput ''pk'', SaveApiKeys True True,
        ChangeInputText ''milk'',
        AddItem 1700000000000] initialState
   = Some \<lparr>items = [\<lparr>id' = ''1700000000000'', name = ''milk'', isEditing = False,
                      healthSuggestion = None, suggestionReason = None,
                      showingSuggestion = None, isLoadingSuggestion = None,
                      imageUrl = None, isLoadingImage = Some True\<rparr>],
           inputText = [], editText = [], apiKey = None, pexelsApiKey = Some ''pk'',
           isApiKeyModalVisible = True, apiKeyInput = [], pexelsApiKeyInput = ''pk'',
           apiKeyError = None,
           inFlight = [ImageRequest ''1700000000000'' ''milk''],
           errorAlerts = 0, deleteAlert = None\<rparr>"
  by (simp add: initialState_def getApiKeys_resolved_def saveApiKeys_def addItem_def
      getHealthSuggestion_def getItemImage_def truthy_def trim_pk trim_milk toString_example
      Let_def)

subsection \<open>A suggestion request that settles with no content\<close>

text \<open>
  The sibling path: an image request that settles with no result resets
  \<^verbatim>\<open>isLoadingImage\<close> in the \<^verbatim>\<open>else\<close> branch of \<^verbatim>\<open>if (imageUrl)\<close>.
\<close>

lemma image_loading_reset:
  "items (getItemImage_resolved itemId (Resolved None) st)
     = map (\<lambda>item. if id' item = itemId then item\<lparr>isLoadingImage := Some False\<rparr> else item)
         (items st)"
  by (simp add: getItemImage_resolved_def truthy_def)

text \<open>
  What the settled suggestion request does with an ok response: nothing when the content
  is \<^verbatim>\<open>undefined\<close> or empty, and otherwise the patch with the parsed pair, which sets
  \<^verbatim>\<open>showingSuggestion\<close> to true and \<^verbatim>\<open>isLoadingSuggestion\<close> to false.
\<close>

lemma suggestion_content_cases:
  "getHealthSuggestion_resolved itemId (Resolved None) st = st"
  "getHealthSuggestion_resolved itemId (Resolved (Some [])) st = st"
  "content \<noteq> [] \<Longrightarrow>
   items (getHealthSuggestion_resolved itemId (Resolved (Some content)) st)
     = map (\<lambda>item. if id' item = itemId
                     then item\<lparr>healthSuggestion := fst (parseSuggestion content),
                               suggestionReason := Some (snd (parseSuggestion content)),
                               showingSuggestion := Some True,
                               isLoadingSuggestion := Some False\<rparr>
                     else item) (items st)"
  by (simp_all add: getHealthSuggestion_resolved_def split: prod.splits)

text \<open>
  C3. The user saves a suggestion key and adds "milk"; the suggestion request settles with
  an ok response whose content is \<^verbatim>\<open>undefined\<close>, or is the empty string. No request is in
  flight any more and the item still has \<^verbatim>\<open>isLoadingSuggestion\<close> true: the patch that
  would set it to false is not applied.
\<close>

theorem suggestion_loading_not_reset:
  "run [KeysLoaded (Some (None, None)), ChangeApiKeyInput ''sk'', SaveApiKeys True True,
        ChangeInputText ''milk'',
        AddItem 1700000000000,
        SuggestionSettled ''1700000000000'' ''milk'' (Resolved None)] initialState
   = Some \<lparr>items = [\<lparr>id' = ''1700000000000'', name = ''milk'', isEditing = False,
                      healthSuggestion = None, suggestionReason = None,
                      showingSuggestion = None, isLoadingSuggestion = Some True,
                      imageUrl = None, isLoadingImage = None\<rparr>],
           inputText = [], editText = [], apiKey = Some ''sk'', pexelsApiKey = None,
           isApiKeyModalVisible = False, apiKeyInput = ''sk'', pexelsApiKeyInput = [],
           apiKeyError = None, inFlight = [], errorAlerts = 0, deleteAlert = None\<rparr>
   \<and> run [KeysLoaded (Some (None, None)), ChangeApiKeyInput ''sk'', SaveApiKeys True True,
        ChangeInputText ''milk'',
        AddItem 1700000000000,
        SuggestionSettled ''1700000000000'' ''milk'' (Resolved (Some []))] initialState
   = Some \<lparr>items = [\<lparr>id' = ''1700000000000'', name = ''milk'', isEditing = False,
                      healthSuggestion = None, suggestionReason = None,
                      showingSuggestion = None, isLoadingSuggestion = Some True,
                      imageUrl = None, isLoadingImage = None\<rparr>],
           inputText = [], editText = [], apiKey = Some ''sk'', pexelsApiKey = None,
           isApiKeyModalVisible = False, apiKeyInput = ''sk'', pexelsApiKeyInput = [],
           apiKeyError = None, inFlight = [], errorAlerts = 0, deleteAlert = None\<rparr>"
proof -
  have "run ([KeysLoaded (Some (None, None)), ChangeApiKeyInput ''sk'', SaveApiKeys True True,
        ChangeInputText ''milk'',
        AddItem 1700000000000] @
        [SuggestionSettled ''1700000000000'' ''milk'' (Resolved v)]) initialState
   = Some \<lparr>items = [\<lparr>id' = ''1700000000000'', name = ''milk'', isEditing = False,
                      healthSuggestion = None, suggestionReason = None,
                      showingSuggestion = None, isLoadingSuggestion = Some True,
                      imageUrl = None, isLoadingImage = None\<rparr>],
           inputText = [], editText = [], apiKey = Some ''sk'', pexelsApiKey = None,
           isApiKeyModalVisible = False, apiKeyInput = ''sk'', pexelsApiKeyInput = [],
           apiKeyError = None, inFlight = [], errorAlerts = 0, deleteAlert = None\<rparr>"
    if "v = None \<or> v = Some []" for v
    unfolding run_append run_add_milk
    using that by (auto simp: getHealthSuggestion_resolved_def)
  from this [of None] this [of "Some []"] show ?thesis
    by (simp only: append.simps simp_thms)
qed

subsection \<open>Ids are unique when the clock readings are\<close>

lemma digit_inj: "a < 10 \<Longrightarrow> b < 10 \<Longrightarrow> digit a = digit b \<Longrightarrow> a = b"
  by (simp add: digit_def split: if_splits) arith

lemma toString_not_Nil: "toString n \<noteq> []"
  by (subst toString.simps) simp

lemma toString_inj: "toString m = toString n \<Longrightarrow> m = n"
proof (induction m arbitrary: n rule: toString.induct)
  case (1 m)
  show ?case
  proof (cases "m < 10")
    case small_m: True
    show ?thesis
    proof (cases "n < 10")
      case True
      with small_m "1.prems" show ?thesis
        by (simp add: toString.simps [of m] toString.simps [of n] digit_inj)
    next
      case False
      with small_m "1.prems" toString_not_Nil [of "n div 10"] show ?thesis
        by (simp add: toString.simps [of m] toString.simps [of n])
    qed
  next
    case big_m: False
    show ?thesis
    proof (cases "n < 10")
      case True
      with big_m "1.prems" toString_not_Nil [of "m div 10"] show ?thesis
        by (simp add: toString.simps [of m] toString.simps [of n])
    next
      case False
      with big_m "1.prems"
      have eq: "toString (m div 10) = toString (n div 10)" "digit (m mod 10) = digit (n mod 10)"
        by (simp_all add: toString.simps [of m] toString.simps [of n])
      from "1.IH" [OF big_m eq(1)] have "m div 10 = n div 10" .
      moreover from eq(2) have "m mod 10 = n mod 10" by (intro digit_inj) simp_all
      ultimately show ?thesis by (metis div_mult_mod_eq)
    qed
  qed
qed

lemma wellKeyed_mono:
  assumes "wellKeyed U xs" "U \<subseteq> V"
  shows "wellKeyed V xs"
proof -
  from assms(2) have "toString ` U \<subseteq> toString ` V" by (rule image_mono)
  with assms(1) show ?thesis unfolding wellKeyed_def by blast
qed

lemma idsInvariant_mono: "idsInvariant U st \<Longrightarrow> U \<subseteq> V \<Longrightarrow> idsInvariant V st"
  by (auto simp: idsInvariant_def split: option.splits intro: wellKeyed_mono)

lemma editing_patch_le:
  assumes "\<And>x. isEditing (f x) \<Longrightarrow> isEditing x"
  shows "length (filter isEditing (map (\<lambda>x. if c x then f x else x) xs)) \<le> length (filter isEditing xs)"
  using assms by (induction xs) auto

lemma wellKeyed_patch:
  assumes "wellKeyed U xs" "\<And>x. id' (f x) = id' x" "\<And>x. isEditing (f x) \<Longrightarrow> isEditing x"
  shows "wellKeyed U (map (\<lambda>x. if c x then f x else x) xs)"
proof -
  have ids: "map id' (map (\<lambda>x. if c x then f x else x) xs) = map id' xs"
    using assms(2) by (induction xs) auto
  then have "id' ` set (map (\<lambda>x. if c x then f x else x) xs) = id' ` set xs"
    by (metis list.set_map)
  with ids assms(1) editing_patch_le [of f c xs, OF assms(3)] show ?thesis
    unfolding wellKeyed_def by (metis (no_types, lifting) le_trans)
qed

lemma wellKeyed_filter: "wellKeyed U xs \<Longrightarrow> wellKeyed U (filter P xs)"
proof -
  assume w: "wellKeyed U xs"
  have "length (filter isEditing (filter P xs)) \<le> length (filter isEditing xs)"
    by (induction xs) auto
  with w show ?thesis
    by (auto simp: wellKeyed_def distinct_map_filter)
qed

lemma one_with_id:
  "distinct (map id' xs) \<Longrightarrow> length (filter (\<lambda>x. id' x = i) xs) \<le> 1"
proof (induction xs)
  case Nil
  then show ?case by simp
next
  case (Cons x xs)
  show ?case
  proof (cases "id' x = i")
    case True
    with Cons.prems have "i \<notin> id' ` set xs" by auto
    then have "filter (\<lambda>x. id' x = i) xs = []" by (auto simp: filter_empty_conv)
    with True show ?thesis by simp
  next
    case False
    with Cons show ?thesis by simp
  qed
qed

lemma wellKeyed_startEditing:
  assumes "wellKeyed U xs"
  shows "wellKeyed U (map (\<lambda>item. if id' item = i then item\<lparr>isEditing := True\<rparr>
                            else item\<lparr>isEditing := False\<rparr>) xs)"
proof -
  let ?g = "\<lambda>item. if id' item = i then item\<lparr>isEditing := True\<rparr> else item\<lparr>isEditing := False\<rparr>"
  have ids: "map id' (map ?g xs) = map id' xs" by (induction xs) auto
  then have img: "id' ` set (map ?g xs) = id' ` set xs" by (metis list.set_map)
  have "length (filter isEditing (map ?g xs)) = length (filter (\<lambda>x. id' x = i) xs)"
    by (induction xs) auto
  moreover from assms have "length (filter (\<lambda>x. id' x = i) xs) \<le> 1"
    unfolding wellKeyed_def by (intro one_with_id) blast
  ultimately have "length (filter isEditing (map ?g xs)) \<le> 1"
    by (simp only:)
  with assms show ?thesis
    unfolding wellKeyed_def ids img by blast
qed

lemma wellKeyed_append_new:
  assumes "wellKeyed U xs" "now \<notin> U" "id' x = toString now" "\<not> isEditing x"
  shows "wellKeyed (insert now U) (xs @ [x])"
proof -
  have "toString now \<notin> toString ` U"
    using assms(2) toString_inj by blast
  with assms show ?thesis
    by (auto simp: wellKeyed_def)
qed

lemma ids_getItemImage: "idsInvariant U st \<Longrightarrow> idsInvariant U (getItemImage i n st)"
  by (auto simp: idsInvariant_def getItemImage_def intro!: wellKeyed_patch)

lemma ids_getItemImage_resolved:
  "idsInvariant U st \<Longrightarrow> idsInvariant U (getItemImage_resolved i r st)"
  by (auto simp: idsInvariant_def getItemImage_resolved_def split: fetchResult.splits
      intro!: wellKeyed_patch)

lemma ids_getHealthSuggestion:
  "idsInvariant U st \<Longrightarrow> idsInvariant U (getHealthSuggestion i n st)"
  by (auto simp: idsInvariant_def getHealthSuggestion_def intro!: wellKeyed_patch)

lemma ids_getHealthSuggestion_resolved:
  "idsInvariant U st \<Longrightarrow> idsInvariant U (getHealthSuggestion_resolved i r st)"
  by (auto simp: idsInvariant_def getHealthSuggestion_resolved_def
      split: fetchResult.splits option.splits prod.splits intro!: wellKeyed_patch)

lemma ids_inFlight_update: "idsInvariant U (st\<lparr>inFlight := fl\<rparr>) = idsInvariant U st"
  by (simp add: idsInvariant_def)

lemma ids_replaceFoodItem:
  assumes inv: "idsInvariant U st"
  shows "idsInvariant U (replaceFoodItem i st)"
proof -
  have "idsInvariant U (st\<lparr>items := map (\<lambda>it. if id' it = i \<and> truthy (healthSuggestion it)
                                              then it\<lparr>name := newName,
                                                     healthSuggestion := None,
                                                     suggestionReason := None,
                                                     showingSuggestion := Some False,
                                                     imageUrl := None\<rparr>
                                              else it) (items st)\<rparr>)" for newName
    using inv by (auto simp: idsInvariant_def intro!: wellKeyed_patch)
  then show ?thesis using inv
    by (simp add: replaceFoodItem_def ids_getItemImage split: option.splits)
qed

lemma ids_addItem:
  assumes inv: "idsInvariant U st" and fresh: "now \<notin> U"
  shows "idsInvariant (insert now U) (addItem now st)"
proof (cases "trim (inputText st) = []")
  case True
  with inv show ?thesis
    by (auto simp: addItem_def intro: idsInvariant_mono)
next
  case False
  let ?new = "\<lparr>id' = toString now, name = trim (inputText st), isEditing = False,
                        healthSuggestion = None, suggestionReason = None,
                        showingSuggestion = None, isLoadingSuggestion = None,
                        imageUrl = None, isLoadingImage = None\<rparr>"
  have "wellKeyed (insert now U) (items st @ [?new])"
    using inv fresh by (intro wellKeyed_append_new) (simp_all add: idsInvariant_def)
  moreover have "idsInvariant (insert now U) st"
    using inv by (rule idsInvariant_mono) blast
  ultimately have "idsInvariant (insert now U) (st\<lparr>items := items st @ [?new], inputText := []\<rparr>)"
    by (simp add: idsInvariant_def)
  with False show ?thesis
    by (simp add: addItem_def Let_def ids_getItemImage ids_getHealthSuggestion)
qed

lemma ids_step:
  assumes "idsInvariant U st" "step e st = Some st'" "set (clockReadings [e]) \<inter> U = {}"
  shows "idsInvariant (U \<union> set (clockReadings [e])) st'"
proof (cases e)
  case (AddItem now)
  with assms show ?thesis by (auto intro: ids_addItem)
next
  case (SuggestionSettled i n r)
  with assms show ?thesis
    by (auto simp: ids_inFlight_update split: if_splits intro!: ids_getHealthSuggestion_resolved)
next
  case (ImageSettled i n r)
  with assms show ?thesis
    by (auto simp: ids_inFlight_update split: if_splits intro!: ids_getItemImage_resolved)
next
  case (ReplaceFoodItem i)
  with assms show ?thesis by (auto intro: ids_replaceFoodItem)
next
  case (KeysLoaded k)
  with assms show ?thesis
    by (auto simp: idsInvariant_def getApiKeys_resolved_def split: option.splits)
next
  case (SaveApiKeys a b)
  with assms show ?thesis
    by (auto simp: idsInvariant_def saveApiKeys_def Let_def)
next
  case (DeleteItem i)
  with assms show ?thesis by (auto simp: idsInvariant_def deleteItem_def)
next
  case DeleteCancel
  with assms show ?thesis
    by (auto simp: idsInvariant_def deleteItem_cancel_def split: if_splits)
next
  case DeleteConfirm
  with assms show ?thesis
    by (auto simp: idsInvariant_def deleteItem_onPress_def split: if_splits option.splits
        intro!: wellKeyed_filter)
next
  case (StartEditing i)
  with assms show ?thesis
    by (auto simp: idsInvariant_def startEditing_def intro!: wellKeyed_startEditing)
next
  case (SaveEdit i)
  with assms show ?thesis
    by (auto simp: idsInvariant_def saveEdit_def split: if_splits intro!: wellKeyed_patch)
next
  case (DismissSuggestion i)
  with assms show ?thesis
    by (auto simp: idsInvariant_def dismissSuggestion_def intro!: wellKeyed_patch)
qed (use assms in \<open>auto simp: idsInvariant_def\<close>)

lemma clockReadings_Cons: "clockReadings (e # es) = clockReadings [e] @ clockReadings es"
  by (cases e) simp_all

lemma ids_run:
  "idsInvariant U st \<Longrightarrow> run es st = Some st' \<Longrightarrow> distinct (clockReadings es)
   \<Longrightarrow> set (clockReadings es) \<inter> U = {} \<Longrightarrow> idsInvariant (U \<union> set (clockReadings es)) st'"
proof (induction es arbitrary: st U)
  case Nil
  then show ?case by simp
next
  case (Cons e es)
  from Cons.prems(2) obtain st1 where s1: "step e st = Some st1" and r: "run es st1 = Some st'"
    by (auto split: option.splits)
  have split: "clockReadings (e # es) = clockReadings [e] @ clockReadings es"
    by (rule clockReadings_Cons)
  from Cons.prems(4) split have "set (clockReadings [e]) \<inter> U = {}" by auto
  from ids_step [OF Cons.prems(1) s1 this]
  have inv1: "idsInvariant (U \<union> set (clockReadings [e])) st1" .
  from Cons.prems(3,4) split
  have "distinct (clockReadings es)"
    and "set (clockReadings es) \<inter> (U \<union> set (clockReadings [e])) = {}"
    by auto
  from Cons.IH [OF inv1 r this]
  show ?case unfolding split by (simp add: Un_assoc)
qed

lemma ids_initial: "idsInvariant {} initialState"
  by (simp add: idsInvariant_def wellKeyed_def initialState_def)

lemma distinct_clock_readings:
  assumes "run es initialState = Some st" "distinct (clockReadings es)"
  shows "distinct (map id' (items st)) \<and> length (filter isEditing (items st)) \<le> 1"
  using ids_run [OF ids_initial assms] by (simp add: idsInvariant_def wellKeyed_def)

subsection \<open>Two items made at one clock reading\<close>

text \<open>
  What \<open>addItem\<close> does with an input that is not blank: the new item comes last, with
  the decimal of the clock reading as id, the trimmed input as name, not editing and with
  no suggestion and no image; its loading flags are those the two dispatches of the same
  call set. The items before it keep their ids.
\<close>

lemma addItem_appends:
  assumes "trim (inputText st) \<noteq> []"
  shows "\<exists>before. items (addItem now st) =
           before @ [\<lparr>id' = toString now, name = trim (inputText st), isEditing = False,
                       healthSuggestion = None, suggestionReason = None,
                       showingSuggestion = None,
                       isLoadingSuggestion = (if truthy (apiKey st) then Some True else None),
                       imageUrl = None,
                       isLoadingImage = (if truthy (pexelsApiKey st) then Some True else None)\<rparr>]
         \<and> map id' before = map id' (items st)"
proof -
  have ids: "map id' (map (\<lambda>item. if c item then f item else item) xs) = map id' xs"
    if "\<And>x. id' (f x) = id' x" for c f and xs :: "GroceryItem list"
    using that by (induction xs) auto
  from assms show ?thesis
    by (simp add: addItem_def Let_def getItemImage_def getHealthSuggestion_def ids)
qed

text \<open>
  C9. The user adds "milk" and then "eggs", and \<^verbatim>\<open>Date.now()\<close> gives the same reading in
  the two calls of \<open>addItem\<close>. The two items have the same id. (When no two calls read
  the same clock value the ids are pairwise distinct: \<open>distinct_clock_readings\<close>.)
\<close>

theorem ids_repeat_at_one_clock_reading:
  "run [KeysLoaded (Some (None, None)), ChangeApiKeyInput ''sk'', SaveApiKeys True True,
        ChangeInputText ''milk'',
        AddItem 1700000000000, ChangeInputText ''eggs'', AddItem 1700000000000] initialState
   = Some \<lparr>items = [\<lparr>id' = ''1700000000000'', name = ''milk'', isEditing = False,
                      healthSuggestion = None, suggestionReason = None,
                      showingSuggestion = None, isLoadingSuggestion = Some True,
                      imageUrl = None, isLoadingImage = None\<rparr>,
                    \<lparr>id' = ''1700000000000'', name = ''eggs'', isEditing = False,
                      healthSuggestion = None, suggestionReason = None,
                      showingSuggestion = None, isLoadingSuggestion = Some True,
                      imageUrl = None, isLoadingImage = None\<rparr>],
           inputText = [], editText = [], apiKey = Some ''sk'', pexelsApiKey = None,
           isApiKeyModalVisible = False, apiKeyInput = ''sk'', pexelsApiKeyInput = [],
           apiKeyError = None,
           inFlight = [SuggestionRequest ''1700000000000'' ''milk'',
                       SuggestionRequest ''1700000000000'' ''eggs''],
           errorAlerts = 0, deleteAlert = None\<rparr>
   \<and> \<not> distinct (map id'
          [\<lparr>id' = ''1700000000000'', name = ''milk'', isEditing = False,
            healthSuggestion = None, suggestionReason = None,
            showingSuggestion = None, isLoadingSuggestion = Some True,
            imageUrl = None, isLoadingImage = None\<rparr>,
           \<lparr>id' = ''1700000000000'', name = ''eggs'', isEditing = False,
            healthSuggestion = None, suggestionReason = None,
            showingSuggestion = None, isLoadingSuggestion = Some True,
            imageUrl = None, isLoadingImage = None\<rparr>])"
proof -
  have "run ([KeysLoaded (Some (None, None)), ChangeApiKeyInput ''sk'', SaveApiKeys True True,
        ChangeInputText ''milk'',
        AddItem 1700000000000] @ [ChangeInputText ''eggs'', AddItem 1700000000000]) initialState
   = Some \<lparr>items = [\<lparr>id' = ''1700000000000'', name = ''milk'', isEditing = False,
                      healthSuggestion = None, suggestionReason = None,
                      showingSuggestion = None, isLoadingSuggestion = Some True,
                      imageUrl = None, isLoadingImage = None\<rparr>,
                    \<lparr>id' = ''1700000000000'', name = ''eggs'', isEditing = False,
                      healthSuggestion = None, suggestionReason = None,
                      showingSuggestion = None, isLoadingSuggestion = Some True,
                      imageUrl = None, isLoadingImage = None\<rparr>],
           inputText = [], editText = [], apiKey = Some ''sk'', pexelsApiKey = None,
           isApiKeyModalVisible = False, apiKeyInput = ''sk'', pexelsApiKeyInput = [],
           apiKeyError = None,
           inFlight = [SuggestionRequest ''1700000000000'' ''milk'',
                       SuggestionRequest ''1700000000000'' ''eggs''],
           errorAlerts = 0, deleteAlert = None\<rparr>"
    unfolding run_append run_add_milk
    by (simp add: addItem_def getHealthSuggestion_def getItemImage_def truthy_def trim_eggs
        toString_example Let_def)
  then show ?thesis by (simp only: append.simps) simp
qed

subsection \<open>Editing\<close>

text \<open>
  With pairwise distinct ids, \<open>startEditing\<close> with the id of the item at position \<open>k\<close>
  leaves exactly that item editing.
\<close>

lemma startEditing_distinct:
  assumes "distinct (map id' (items st))" "k < length (items st)" "j < length (items st)"
  shows "isEditing (items (startEditing (id' (items st ! k)) st) ! j) = (j = k)"
proof -
  have "id' (items st ! j) = id' (items st ! k) \<longleftrightarrow> j = k"
    using assms by (metis distinct_conv_nth length_map nth_map)
  with assms(3) show ?thesis
    by (simp add: startEditing_def)
qed

text \<open>
  C6. After the two items of one clock reading, the user presses Edit on one of them:
  \<open>startEditing\<close> with the shared id sets \<^verbatim>\<open>isEditing\<close> on both, so two items are editing.
  (When no two calls of \<open>addItem\<close> read the same clock value at most one item is
  editing in every state reached: \<open>distinct_clock_readings\<close>.)
\<close>

theorem two_items_editing:
  "run [KeysLoaded (Some (None, None)), ChangeApiKeyInput ''sk'', SaveApiKeys True True,
        ChangeInputText ''milk'',
        AddItem 1700000000000, ChangeInputText ''eggs'', AddItem 1700000000000,
        StartEditing ''1700000000000''] initialState
   = Some \<lparr>items = [\<lparr>id' = ''1700000000000'', name = ''milk'', isEditing = True,
                      healthSuggestion = None, suggestionReason = None,
                      showingSuggestion = None, isLoadingSuggestion = Some True,
                      imageUrl = None, isLoadingImage = None\<rparr>,
                    \<lparr>id' = ''1700000000000'', name = ''eggs'', isEditing = True,
                      healthSuggestion = None, suggestionReason = None,
                      showingSuggestion = None, isLoadingSuggestion = Some True,
                      imageUrl = None, isLoadingImage = None\<rparr>],
           inputText = [], editText = ''eggs'', apiKey = Some ''sk'', pexelsApiKey = None,
           isApiKeyModalVisible = False, apiKeyInput = ''sk'', pexelsApiKeyInput = [],
           apiKeyError = None,
           inFlight = [SuggestionRequest ''1700000000000'' ''milk'',
                       SuggestionRequest ''1700000000000'' ''eggs''],
           errorAlerts = 0, deleteAlert = None\<rparr>
   \<and> length (filter isEditing
          [\<lparr>id' = ''1700000000000'', name = ''milk'', isEditing = True,
            healthSuggestion = None, suggestionReason = None,
            showingSuggestion = None, isLoadingSuggestion = Some True,
            imageUrl = None, isLoadingImage = None\<rparr>,
           \<lparr>id' = ''1700000000000'', name = ''eggs'', isEditing = True,
            healthSuggestion = None, suggestionReason = None,
            showingSuggestion = None, isLoadingSuggestion = Some True,
            imageUrl = None, isLoadingImage = None\<rparr>]) = 2"
proof -
  have "run ([KeysLoaded (Some (None, None)), ChangeApiKeyInput ''sk'', SaveApiKeys True True,
        ChangeInputText ''milk'',
        AddItem 1700000000000] @ [ChangeInputText ''eggs'', AddItem 1700000000000,
        StartEditing ''1700000000000'']) initialState
   = Some \<lparr>items = [\<lparr>id' = ''1700000000000'', name = ''milk'', isEditing = True,
                      healthSuggestion = None, suggestionReason = None,
                      showingSuggestion = None, isLoadingSuggestion = Some True,
                      imageUrl = None, isLoadingImage = None\<rparr>,
                    \<lparr>id' = ''1700000000000'', name = ''eggs'', isEditing = True,
                      healthSuggestion = None, suggestionReason = None,
                      showingSuggestion = None, isLoadingSuggestion = Some True,
                      imageUrl = None, isLoadingImage = None\<rparr>],
           inputText = [], editText = ''eggs'', apiKey = Some ''sk'', pexelsApiKey = None,
           isApiKeyModalVisible = False, apiKeyInput = ''sk'', pexelsApiKeyInput = [],
           apiKeyError = None,
           inFlight = [SuggestionRequest ''1700000000000'' ''milk'',
                       SuggestionRequest ''1700000000000'' ''eggs''],
           errorAlerts = 0, deleteAlert = None\<rparr>"
    unfolding run_append run_add_milk
    by (simp add: addItem_def getHealthSuggestion_def getItemImage_def truthy_def trim_eggs
        toString_example startEditing_def Let_def)
  then show ?thesis by (simp only: append.simps) simp
qed

subsection \<open>Adding with a blank input\<close>

text \<open>
  C10. When the input text trims to the empty string, \<open>addItem\<close> changes nothing: the
  collection, the input and the requests in flight are those of before, so no item is
  appended and neither request is sent.
\<close>

theorem addItem_blank_noop:
  "trim (inputText st) = [] \<Longrightarrow> addItem now st = st"
  by (simp add: addItem_def)

theorem addItem_blank_noop_witness:
  "trim (inputText (initialState\<lparr>inputText := ''  ''\<rparr>)) = []
   \<and> addItem 1700000000000 (initialState\<lparr>inputText := ''  ''\<rparr>)
       = initialState\<lparr>inputText := ''  ''\<rparr>"
proof -
  have blank: "trim (inputText (initialState\<lparr>inputText := ''  ''\<rparr>)) = []"
    by (simp add: trim_def isWhiteSpace_def)
  from blank addItem_blank_noop [OF blank] show ?thesis by simp
qed

end
